theory Spec2Isabelle
  imports Main "HOL-Library.Word" "HOL-Library.Char_ord" "HOL-Library.List_Lexorder"
    "HOL-Library.Multiset"
begin

section \<open>Results and JavaScript values\<close>

text \<open>
  Every fallible operation of the repository returns \<open>{ok: T}\<close> or \<open>{error: E}\<close>; an
  exception that no \<open>try\<close> catches leaves the function instead. The three ways out
  are the three constructors of \<open>outcome\<close>; \<open>Throw\<close> carries the exception's
  \<open>name\<close> (or, for errors built by libraries, a short tag). \<open>Cause\<close> is a caught
  exception returned as it is (\<open>{error: cause}\<close>), by its message.
\<close>

datatype failure =
    RecordNotFound string
  | RecordKeyConflict
  | StorageOperationFailed string
  | EncodeFailure string
  | DecodeFailure string
  | Cause string

datatype 'a outcome = Ok 'a | Error failure | Throw string

type_synonym bytes = "8 word list"
type_synonym did = string

text \<open>
  A link (CID) is represented by its canonical string form, the value of
  \<open>toString()\<close> and of a template literal; \<open>Link.parse\<close> is the inverse of
  \<open>toString\<close> and so the identity on this representation.
\<close>

type_synonym link = string

text \<open>JavaScript truthiness of an optional string and of \<open>options.size || 20\<close>.\<close>

definition truthy :: "string option \<Rightarrow> bool" where
  "truthy v = (case v of None \<Rightarrow> False | Some s \<Rightarrow> s \<noteq> [])"

definition or_default :: "nat option \<Rightarrow> nat \<Rightarrow> nat" where
  "or_default v d = (case v of None \<Rightarrow> d | Some n \<Rightarrow> if n = 0 then d else n)"

section \<open>base58btc (multiformats)\<close>

text \<open>
  \<open>base58btc.encode\<close> of the multiformats library: the multibase prefix \<open>z\<close>, one
  \<open>1\<close> for every leading zero byte, then the remaining bytes read as a big-endian
  number and written in base 58 over the Bitcoin alphabet. \<open>base58btc.decode\<close>
  throws (here \<open>None\<close>) on a missing prefix or a character outside the alphabet.
\<close>

definition base58_alphabet :: string where
  "base58_alphabet = ''123456789ABCDEFGHJKLMNPQRSTUVWXYZabcdefghijkmnopqrstuvwxyz''"

definition bytes_to_nat :: "bytes \<Rightarrow> nat" where
  "bytes_to_nat bs = foldl (\<lambda>a b. a * 256 + unat b) 0 bs"

fun nat_to_bytes :: "nat \<Rightarrow> bytes" where
  "nat_to_bytes n = (if n = 0 then [] else nat_to_bytes (n div 256) @ [of_nat (n mod 256)])"

fun digits58 :: "nat \<Rightarrow> string" where
  "digits58 n = (if n = 0 then [] else digits58 (n div 58) @ [base58_alphabet ! (n mod 58)])"

declare nat_to_bytes.simps [simp del] digits58.simps [simp del]

fun index_of :: "'a \<Rightarrow> 'a list \<Rightarrow> nat" where
  "index_of c [] = 0"
| "index_of c (x # xs) = (if x = c then 0 else Suc (index_of c xs))"

definition digits58_to_nat :: "string \<Rightarrow> nat" where
  "digits58_to_nat s = foldl (\<lambda>a c. a * 58 + index_of c base58_alphabet) 0 s"

definition base58btc_encode :: "bytes \<Rightarrow> string" where
  "base58btc_encode bs =
     CHR ''z'' # replicate (length (takeWhile (\<lambda>b. b = 0) bs)) CHR ''1''
       @ digits58 (bytes_to_nat (dropWhile (\<lambda>b. b = 0) bs))"

definition base58btc_decode :: "string \<Rightarrow> bytes option" where
  "base58btc_decode s =
     (case s of
        [] \<Rightarrow> None
      | p # body \<Rightarrow>
          if p \<noteq> CHR ''z'' then None
          else if list_ex (\<lambda>c. c \<notin> set base58_alphabet) body then None
          else Some (replicate (length (takeWhile (\<lambda>c. c = CHR ''1'') body)) 0
                 @ nat_to_bytes (digits58_to_nat (dropWhile (\<lambda>c. c = CHR ''1'') body))))"

section \<open>The keyed store behind the Allocation Ledger\<close>

text \<open>
  The DynamoDB table of allocations. Its primary key is \<open>space\<close> (partition) and
  \<open>multihash\<close> (sort), the two attributes \<open>getKey\<close> marshalls. An item is what
  \<open>insert\<close> marshalls.
\<close>

record item =
  item_space :: did
  item_multihash :: string
  item_size :: nat
  item_cause :: string
  item_insertedAt :: string

text \<open>A marshalled key: attribute names with their string values.\<close>

type_synonym attrs = "(string \<times> string) list"

datatype condition = attribute_not_exists | attribute_exists

text \<open>
  The four commands \<open>allocations.js\<close> sends. \<open>QueryCommand\<close> carries the space of
  its \<open>EQ\<close> key condition, \<open>Limit\<close>, \<open>ScanIndexForward\<close> and
  \<open>ExclusiveStartKey\<close>; it names no index, so it reads the primary index.
\<close>

datatype command =
    GetItemCommand attrs
  | PutItemCommand item condition
  | DeleteItemCommand attrs condition
  | QueryCommand did nat bool "attrs option"

datatype response =
    GetItemOutput "item option"
  | PutItemOutput
  | DeleteItemOutput "item option"
  | QueryOutput "item list" "attrs option"

text \<open>
  The state of the store: the items in the order they were written, and the log of the
  commands the client sent.
\<close>

record dynamoDb =
  items :: "item list"
  sent :: "command list"

definition key_of :: "attrs \<Rightarrow> (did \<times> string) option" where
  "key_of k =
     (case (map_of k ''space'', map_of k ''multihash'') of
        (Some s, Some m) \<Rightarrow> if length k = 2 then Some (s, m) else None
      | _ \<Rightarrow> None)"

definition item_key :: "item \<Rightarrow> did \<times> string" where
  "item_key i = (item_space i, item_multihash i)"

definition lookup :: "item list \<Rightarrow> did \<times> string \<Rightarrow> item option" where
  "lookup its k = find (\<lambda>i. item_key i = k) its"

text \<open>
  Modelled from the spec: the keyed-store collaborator of section 6 (the DynamoDB
  service itself, which is not code of the repository). \<open>putItem\<close> conditional on
  absence and \<open>deleteItem\<close> conditional on existence fail with
  \<open>ConditionalCheckFailedException\<close>; a key that does not match the table's key
  schema is a \<open>ValidationException\<close>; \<open>query\<close> returns the items of one partition
  in sort-key order (strings compare by their bytes), after the exclusive start key, at
  most \<open>Limit\<close> of them, with the key of the last one when the limit was reached.
\<close>

definition query_items ::
  "item list \<Rightarrow> did \<Rightarrow> nat \<Rightarrow> bool \<Rightarrow> (did \<times> string) option \<Rightarrow> item list" where
  "query_items its sp limit forward start =
     (let part = sort_key item_multihash (filter (\<lambda>i. item_space i = sp) its);
          ordered = (if forward then part else rev part);
          rest = (case start of
                    None \<Rightarrow> ordered
                  | Some (_, m) \<Rightarrow>
                      filter (\<lambda>i. if forward then m < item_multihash i
                                   else item_multihash i < m) ordered)
      in take limit rest)"

definition last_evaluated_key :: "nat \<Rightarrow> item list \<Rightarrow> attrs option" where
  "last_evaluated_key limit page =
     (if page \<noteq> [] \<and> length page = limit
      then Some [(''space'', item_space (last page)), (''multihash'', item_multihash (last page))]
      else None)"

fun execute :: "item list \<Rightarrow> command \<Rightarrow> (string + response) \<times> item list" where
  "execute its (GetItemCommand k) =
     (case key_of k of
        None \<Rightarrow> (Inl ''ValidationException'', its)
      | Some kk \<Rightarrow> (Inr (GetItemOutput (lookup its kk)), its))"
| "execute its (PutItemCommand it c) =
     (let old = lookup its (item_key it);
          holds = (case c of attribute_not_exists \<Rightarrow> old = None
                           | attribute_exists \<Rightarrow> old \<noteq> None)
      in if holds
         then (Inr PutItemOutput, filter (\<lambda>i. item_key i \<noteq> item_key it) its @ [it])
         else (Inl ''ConditionalCheckFailedException'', its))"
| "execute its (DeleteItemCommand k c) =
     (case key_of k of
        None \<Rightarrow> (Inl ''ValidationException'', its)
      | Some kk \<Rightarrow>
          (let old = lookup its kk;
               holds = (case c of attribute_not_exists \<Rightarrow> old = None
                                | attribute_exists \<Rightarrow> old \<noteq> None)
           in if holds
              then (Inr (DeleteItemOutput old), filter (\<lambda>i. item_key i \<noteq> kk) its)
              else (Inl ''ConditionalCheckFailedException'', its)))"
| "execute its (QueryCommand sp limit forward start) =
     (case start of
        None \<Rightarrow>
          (let page = query_items its sp limit forward None
           in (Inr (QueryOutput page (last_evaluated_key limit page)), its))
      | Some k \<Rightarrow>
          (case key_of k of
             None \<Rightarrow> (Inl ''ValidationException'', its)
           | Some kk \<Rightarrow>
               (let page = query_items its sp limit forward (Some kk)
                in (Inr (QueryOutput page (last_evaluated_key limit page)), its))))"

text \<open>
  \<open>dynamoDb.send\<close>. The first argument is a failure of the backend, if any: the name
  of the exception the call then throws, leaving the table as it was.
\<close>

definition send :: "string option \<Rightarrow> dynamoDb \<Rightarrow> command \<Rightarrow> (string + response) \<times> dynamoDb" where
  "send fault db cmd =
     (case fault of
        Some name \<Rightarrow> (Inl name, db\<lparr>sent := sent db @ [cmd]\<rparr>)
      | None \<Rightarrow>
          (let (r, its) = execute (items db) cmd
           in (r, \<lparr>items = its, sent = sent db @ [cmd]\<rparr>)))"

section \<open>Allocation Ledger (upload-api/stores/allocations.js)\<close>

record blob =
  blob_digest :: bytes
  blob_size :: nat

record blobAddInput =
  input_space :: did
  input_blob :: blob
  input_cause :: link

record allocation =
  allocation_blob :: blob
  allocation_cause :: link

definition getKey :: "did \<Rightarrow> bytes \<Rightarrow> attrs" where
  "getKey space blobMultihash =
     (let multihash58btc = base58btc_encode blobMultihash
      in [(''space'', space), (''multihash'', multihash58btc)])"

definition allocations_exists ::
  "string option \<Rightarrow> dynamoDb \<Rightarrow> did \<Rightarrow> bytes \<Rightarrow> bool outcome \<times> dynamoDb" where
  "allocations_exists fault db space blobMultihash =
     (let key = getKey space blobMultihash;
          cmd = GetItemCommand key;
          (r, db') = send fault db cmd
      in case r of
           Inr (GetItemOutput it) \<Rightarrow> (Ok (it \<noteq> None), db')
         | Inr _ \<Rightarrow> (Ok False, db')
         | Inl _ \<Rightarrow> (Ok False, db'))"

definition allocations_get ::
  "string option \<Rightarrow> dynamoDb \<Rightarrow> did \<Rightarrow> bytes \<Rightarrow> allocation outcome \<times> dynamoDb" where
  "allocations_get fault db space blobMultihash =
     (let key = getKey space blobMultihash;
          cmd = GetItemCommand key;
          (r, db') = send fault db cmd
      in case r of
           Inl name \<Rightarrow> (Throw name, db')
         | Inr (GetItemOutput None) \<Rightarrow> (Error (RecordNotFound []), db')
         | Inr (GetItemOutput (Some raw)) \<Rightarrow>
             (case base58btc_decode (item_multihash raw) of
                None \<Rightarrow> (Throw ''Error'', db')
              | Some d \<Rightarrow>
                  (Ok \<lparr>allocation_blob = \<lparr>blob_digest = d, blob_size = item_size raw\<rparr>,
                       allocation_cause = item_cause raw\<rparr>, db'))
         | Inr _ \<Rightarrow> (Throw ''TypeError'', db'))"

text \<open>\<open>now\<close> is the value of \<open>new Date().toISOString()\<close> when \<open>insert\<close> runs.\<close>

definition allocations_insert ::
  "string option \<Rightarrow> dynamoDb \<Rightarrow> blobAddInput \<Rightarrow> string \<Rightarrow> blob outcome \<times> dynamoDb" where
  "allocations_insert fault db input now =
     (let insertedAt = now;
          multihash58btc = base58btc_encode (blob_digest (input_blob input));
          item = \<lparr>item_space = input_space input,
                  item_multihash = multihash58btc,
                  item_size = blob_size (input_blob input),
                  item_cause = input_cause input,
                  item_insertedAt = insertedAt\<rparr>;
          cmd = PutItemCommand item attribute_not_exists;
          (r, db') = send fault db cmd
      in case r of
           Inl name \<Rightarrow>
             (if name = ''ConditionalCheckFailedException''
              then (Error RecordKeyConflict, db')
              else (Throw name, db'))
         | Inr _ \<Rightarrow> (Ok (input_blob input), db'))"

definition allocations_remove ::
  "string option \<Rightarrow> dynamoDb \<Rightarrow> did \<Rightarrow> bytes \<Rightarrow> nat outcome \<times> dynamoDb" where
  "allocations_remove fault db space blobMultihash =
     (let key = getKey space blobMultihash;
          cmd = DeleteItemCommand key attribute_exists;
          (r, db') = send fault db cmd
      in case r of
           Inr (DeleteItemOutput (Some raw)) \<Rightarrow> (Ok (item_size raw), db')
         | Inr _ \<Rightarrow> (Error (StorageOperationFailed ''Error''), db')
         | Inl name \<Rightarrow>
             (if name = ''ConditionalCheckFailedException''
              then (Ok 0, db')
              else (Error (StorageOperationFailed name), db')))"

record listOptions =
  opt_cursor :: "string option"
  opt_size :: "nat option"
  opt_pre :: "bool option"

record blobListItem =
  li_blob :: blob
  li_insertedAt :: string

record listResult =
  lr_size :: nat
  lr_before :: "string option"
  lr_after :: "string option"
  lr_cursor :: "string option"
  lr_results :: "blobListItem list"

definition toBlobListResult :: "item \<Rightarrow> blobListItem option" where
  "toBlobListResult raw =
     (case base58btc_decode (item_multihash raw) of
        None \<Rightarrow> None
      | Some d \<Rightarrow>
          Some \<lparr>li_blob = \<lparr>blob_digest = d, blob_size = item_size raw\<rparr>,
                li_insertedAt = item_insertedAt raw\<rparr>)"

text \<open>
  \<open>list\<close>. \<open>None\<close> of \<open>toBlobListResult\<close> is the exception \<open>base58btc.decode\<close>
  throws; nothing in \<open>list\<close> catches it, nor what \<open>send\<close> throws.
\<close>

definition allocations_list ::
  "string option \<Rightarrow> dynamoDb \<Rightarrow> did \<Rightarrow> listOptions \<Rightarrow> listResult outcome \<times> dynamoDb" where
  "allocations_list fault db space options =
     (let pre = (opt_pre options = Some True);
          exclusiveStartKey =
            (case opt_cursor options of
               None \<Rightarrow> None
             | Some c \<Rightarrow> if c = [] then None else Some [(''space'', space), (''link'', c)]);
          cmd = QueryCommand space (or_default (opt_size options) 20) (\<not> pre) exclusiveStartKey;
          (r, db') = send fault db cmd
      in case r of
           Inl name \<Rightarrow> (Throw name, db')
         | Inr (QueryOutput its lastEvaluatedKey) \<Rightarrow>
             (case those (map toBlobListResult its) of
                None \<Rightarrow> (Throw ''Error'', db')
              | Some results \<Rightarrow>
                  (let firstLinkCID =
                         (case results of
                            [] \<Rightarrow> None
                          | r0 # _ \<Rightarrow> Some (base58btc_encode (blob_digest (li_blob r0))));
                       lastLinkCID =
                         (case lastEvaluatedKey of
                            None \<Rightarrow> None
                          | Some lastKey \<Rightarrow> map_of lastKey ''multihash'');
                       before = (if pre then lastLinkCID else firstLinkCID);
                       after = (if pre then firstLinkCID else lastLinkCID)
                   in (Ok \<lparr>lr_size = length results,
                           lr_before = before,
                           lr_after = after,
                           lr_cursor = after,
                           lr_results = (if pre then rev results else results)\<rparr>, db')))
         | Inr _ \<Rightarrow> (Throw ''TypeError'', db'))"

text \<open>
  Vocabulary for the listing theorems: the key and the attributes \<open>list\<close> projects,
  read off a stored item and off a listed record; the records of a space in the order of
  the table's sort key; and an item whose \<open>multihash\<close> is the base58btc encoding of its
  decoding, as every item written by \<open>insert\<close> is.
\<close>

definition stored :: "item \<Rightarrow> string \<times> nat \<times> string" where
  "stored i = (item_multihash i, item_size i, item_insertedAt i)"

definition listed :: "blobListItem \<Rightarrow> string \<times> nat \<times> string" where
  "listed x = (base58btc_encode (blob_digest (li_blob x)), blob_size (li_blob x), li_insertedAt x)"

definition space_records :: "dynamoDb \<Rightarrow> did \<Rightarrow> item list" where
  "space_records db sp = sort_key item_multihash (filter (\<lambda>i. item_space i = sp) (items db))"

definition canonical :: "item \<Rightarrow> bool" where
  "canonical i =
     (case base58btc_decode (item_multihash i) of
        None \<Rightarrow> False
      | Some d \<Rightarrow> base58btc_encode d = item_multihash i)"

text \<open>
  Two allocations of one space, written in this order: digest \<open>[2]\<close> first, digest
  \<open>[1]\<close> a day later.
\<close>

definition two_allocations :: dynamoDb where
  "two_allocations =
     snd (allocations_insert None
       (snd (allocations_insert None \<lparr>items = [], sent = []\<rparr>
          \<lparr>input_space = ''did:key:alice'',
           input_blob = \<lparr>blob_digest = [2], blob_size = 10\<rparr>,
           input_cause = ''bafyreicause1''\<rparr> ''2024-01-01T00:00:00.000Z''))
       \<lparr>input_space = ''did:key:alice'',
        input_blob = \<lparr>blob_digest = [1], blob_size = 20\<rparr>,
        input_cause = ''bafyreicause2''\<rparr> ''2024-01-02T00:00:00.000Z'')"

section \<open>JavaScript strings\<close>

text \<open>
  \<open>String.prototype.indexOf\<close> for one character (\<open>-1\<close> when it does not occur),
  \<open>slice\<close> (a negative index counts from the end, an empty result when the bounds
  cross), \<open>startsWith\<close> and \<open>endsWith\<close>.
\<close>

definition indexOf :: "string \<Rightarrow> char \<Rightarrow> int" where
  "indexOf s c = (if c \<in> set s then int (length (takeWhile (\<lambda>x. x \<noteq> c) s)) else - 1)"

definition slice :: "string \<Rightarrow> int \<Rightarrow> int \<Rightarrow> string" where
  "slice s start stop =
     (let len = int (length s);
          from = (if start < 0 then max (len + start) 0 else min start len);
          to = (if stop < 0 then max (len + stop) 0 else min stop len)
      in take (nat (to - from)) (drop (nat from) s))"

definition startsWith :: "string \<Rightarrow> string \<Rightarrow> bool" where
  "startsWith s p = (take (length p) s = p)"

definition endsWith :: "string \<Rightarrow> string \<Rightarrow> bool" where
  "endsWith s suffix =
     (length suffix \<le> length s \<and> drop (length s - length suffix) s = suffix)"

section \<open>The object store behind the Agent Message Index\<close>

record s3error =
  err_name :: string
  err_message :: string
  err_httpStatusCode :: "nat option"

text \<open>
  The three commands \<open>store.js\<close> sends, each with its \<open>Bucket\<close>, then \<open>Key\<close> (or
  \<open>Prefix\<close>); a put without \<open>Body\<close> stores an empty object. \<open>Contents\<close> of a
  listing is undefined when nothing matches, and a listed object's \<open>Key\<close> is optional
  in the SDK's types.
\<close>

datatype s3command =
    PutObjectCommand string string "bytes option"
  | GetObjectCommand string string
  | ListObjectsV2Command string string

datatype s3response =
    PutObjectOutput
  | GetObjectOutput "bytes option"
  | ListObjectsV2Output "string option list option"

text \<open>
  The state behind the S3 client: the objects by bucket and key, and the commands that
  the service currently fails, with the error it throws for each.
\<close>

record s3 =
  objects :: "((string \<times> string) \<times> bytes) list"
  outage :: "s3command \<Rightarrow> s3error option"

text \<open>
  Modelled from the spec: the object-store collaborator of section 6 (the S3 service,
  which is not code of the repository): \<open>put\<close>, \<open>get\<close> with a distinguishable 404
  for a missing key, and \<open>list\<close> by prefix, which S3 returns in the order of the keys'
  bytes, at most 1000 of them.
\<close>

definition listed_keys :: "((string \<times> string) \<times> bytes) list \<Rightarrow> string \<Rightarrow> string \<Rightarrow> string list" where
  "listed_keys objs bucket prefix =
     take 1000 (sort (map (\<lambda>ob. snd (fst ob))
        (filter (\<lambda>ob. fst (fst ob) = bucket \<and> startsWith (snd (fst ob)) prefix) objs)))"

fun s3_execute ::
  "((string \<times> string) \<times> bytes) list \<Rightarrow> s3command
     \<Rightarrow> (s3error + s3response) \<times> ((string \<times> string) \<times> bytes) list" where
  "s3_execute objs (PutObjectCommand bucket key body) =
     (Inr PutObjectOutput,
      filter (\<lambda>ob. fst ob \<noteq> (bucket, key)) objs
        @ [((bucket, key), case body of None \<Rightarrow> [] | Some b \<Rightarrow> b)])"
| "s3_execute objs (GetObjectCommand bucket key) =
     (case map_of objs (bucket, key) of
        None \<Rightarrow>
          (Inl \<lparr>err_name = ''NoSuchKey'',
                err_message = ''The specified key does not exist.'',
                err_httpStatusCode = Some 404\<rparr>, objs)
      | Some b \<Rightarrow> (Inr (GetObjectOutput (Some b)), objs))"
| "s3_execute objs (ListObjectsV2Command bucket prefix) =
     (let keys = listed_keys objs bucket prefix
      in (Inr (ListObjectsV2Output (if keys = [] then None else Some (map Some keys))), objs))"

text \<open>\<open>channel.send\<close>.\<close>

definition s3_send :: "s3 \<Rightarrow> s3command \<Rightarrow> (s3error + s3response) \<times> s3" where
  "s3_send ch cmd =
     (case outage ch cmd of
        Some e \<Rightarrow> (Inl e, ch)
      | None \<Rightarrow>
          (let (r, objs) = s3_execute (objects ch) cmd
           in (r, ch\<lparr>objects := objs\<rparr>)))"

section \<open>Agent Message Index (upload-api/stores/agent/store.js)\<close>

record buckets =
  index_name :: string
  message_name :: string

record store =
  channel :: s3
  buckets :: buckets

text \<open>
  The functions of \<open>@ucanto\<close> that \<open>store.js\<close> calls, as parameters: the encoder of a
  message into a CAR, the CAR decoder, the views of an invocation and of a receipt at a
  root within a decoded archive (\<open>None\<close> is the \<open>null\<close> fallback), the receipts of a
  decoded legacy request by task, and \<open>parseLink\<close>. \<open>None\<close> of a decoder or of
  \<open>parseLink\<close> is the exception it throws.
\<close>

record ('m, 'a, 'i, 'r) ucanto =
  response_encode :: "'m \<Rightarrow> bytes"
  codec_decode :: "bytes \<Rightarrow> 'a option"
  invocation_view :: "link \<Rightarrow> 'a \<Rightarrow> 'i option"
  receipt_view :: "link \<Rightarrow> 'a \<Rightarrow> 'r option"
  request_receipts :: "bytes \<Rightarrow> (string \<Rightarrow> 'r option) option"
  parseLink :: "string \<Rightarrow> link option"

text \<open>\<open>CAR.codec.contentType\<close>, as the comment in \<open>assert\<close> gives it.\<close>

definition CAR_contentType :: string where
  "CAR_contentType = ''application/vnd.ipld.car''"

text \<open>
  An \<open>Invocation\<close> or a \<open>Receipt\<close> view of \<open>@ucanto\<close>, as the entries of
  \<open>message.index\<close> hold them: an object, of which the model keeps the link of its
  root. Neither class defines \<open>toString\<close>, so a template literal renders a view with
  \<open>Object.prototype.toString\<close>, whatever its link.
\<close>

record view =
  view_link :: link

definition template_view :: "view \<Rightarrow> string" where
  "template_view v = ''[object Object]''"

text \<open>
  The \<open>invocation\<close> and the \<open>receipt\<close> variant of an index entry: \<open>task\<close> and
  \<open>message\<close> are links, \<open>invocation\<close> and \<open>receipt\<close> are views.
\<close>

record invocationRecord =
  inv_task :: link
  inv_invocation :: view
  inv_message :: link

record receiptRecord =
  rcp_task :: link
  rcp_receipt :: view
  rcp_message :: link

text \<open>
  An entry of \<open>message.index\<close>: \<open>assert\<close> tests its \<open>invocation\<close> and its
  \<open>receipt\<close> field independently.
\<close>

record indexRecord =
  entry_invocation :: "invocationRecord option"
  entry_receipt :: "receiptRecord option"

text \<open>
  A parsed agent message: \<open>message.data.root.cid\<close>, \<open>message.data\<close>, the headers and
  the body of \<open>message.source\<close>, and \<open>message.index\<close>.
\<close>

record 'm parsedAgentMessage =
  msg_root_cid :: link
  msg_data :: 'm
  msg_headers :: "(string \<times> string) list"
  msg_body :: bytes
  msg_index :: "indexRecord list"

text \<open>
  The loop of \<open>assert\<close> over \<open>message.index\<close>. The keys are template literals
  over \<open>task\<close>, \<open>invocation\<close> (or \<open>receipt\<close>) and \<open>message\<close> as they are.
\<close>

fun index_commands :: "buckets \<Rightarrow> indexRecord list \<Rightarrow> s3command list" where
  "index_commands bs [] = []"
| "index_commands bs (entry # rest) =
     (case entry_invocation entry of
        None \<Rightarrow> []
      | Some i \<Rightarrow>
          [PutObjectCommand (index_name bs)
             (inv_task i @ ''/'' @ template_view (inv_invocation i) @ ''@'' @ inv_message i
                @ ''.in'') None])
     @ (case entry_receipt entry of
          None \<Rightarrow> []
        | Some r \<Rightarrow>
            [PutObjectCommand (index_name bs)
               (rcp_task r @ ''/'' @ template_view (rcp_receipt r) @ ''@'' @ rcp_message r
                  @ ''.out'') None])
     @ index_commands bs rest"

definition assert ::
  "('m, 'a, 'i, 'r) ucanto \<Rightarrow> buckets \<Rightarrow> 'm parsedAgentMessage \<Rightarrow> s3command list" where
  "assert U bs message =
     (let id = msg_root_cid message;
          body = (if map_of (msg_headers message) ''content-type'' = Some CAR_contentType
                  then msg_body message
                  else response_encode U (msg_data message))
      in PutObjectCommand (message_name bs) (id @ ''/'' @ id) (Some body)
         # index_commands bs (msg_index message))"

text \<open>
  \<open>Promise.all\<close> over the sends: every command is sent, and the write fails with a
  rejection if there is one (here the first in the order of the commands).
\<close>

fun send_all :: "s3 \<Rightarrow> s3command list \<Rightarrow> s3error option \<times> s3" where
  "send_all ch [] = (None, ch)"
| "send_all ch (c # cs) =
     (let (r, ch') = s3_send ch c;
          (e, ch'') = send_all ch' cs
      in (case r of Inl err \<Rightarrow> Some err | Inr _ \<Rightarrow> e, ch''))"

definition write_message ::
  "('m, 'a, 'i, 'r) ucanto \<Rightarrow> store \<Rightarrow> 'm parsedAgentMessage \<Rightarrow> unit outcome \<times> store" where
  "write_message U st message =
     (let commands = assert U (buckets st) message;
          (e, ch') = send_all (channel st) commands
      in (case e of None \<Rightarrow> Ok () | Some cause \<Rightarrow> Error (Cause (err_message cause)),
          st\<lparr>channel := ch'\<rparr>))"

definition not_found_404 :: "s3error \<Rightarrow> bool" where
  "not_found_404 e = (err_httpStatusCode e = Some 404)"

definition read :: "store \<Rightarrow> string \<Rightarrow> bytes outcome" where
  "read st at =
     (let getCmd = GetObjectCommand (index_name (buckets st)) (at @ ''/'' @ at)
      in case fst (s3_send (channel st) getCmd) of
           Inl error \<Rightarrow>
             if not_found_404 error
             then Error (RecordNotFound (''agent message archive '' @ at @ '' not found in store''))
             else Error (StorageOperationFailed (err_message error))
         | Inr (GetObjectOutput (Some bytes)) \<Rightarrow> Ok bytes
         | Inr _ \<Rightarrow>
             Error (RecordNotFound (''agent message archive '' @ at @ '' not found in store'')))"

definition agent_list :: "store \<Rightarrow> string \<Rightarrow> string \<Rightarrow> string list outcome" where
  "agent_list connection prefix suffix =
     (let command = ListObjectsV2Command (index_name (buckets connection)) prefix
      in case fst (s3_send (channel connection) command) of
           Inl error \<Rightarrow>
             if not_found_404 error
             then Error (RecordNotFound
                    (''any pseudo symlink from invocation '' @ prefix @ ''*'' @ suffix @ '' was found''))
             else Error (StorageOperationFailed (err_message error))
         | Inr res \<Rightarrow>
             (let entries =
                    (case res of
                       ListObjectsV2Output (Some contents) \<Rightarrow>
                         filter (\<lambda>key. endsWith key suffix)
                           (map (\<lambda>c. case c of None \<Rightarrow> [] | Some k \<Rightarrow> k) contents)
                     | _ \<Rightarrow> [])
              in if length entries > 0 then Ok entries
                 else Error (RecordNotFound
                        (''any pseudo symlink from invocation '' @ prefix @ ''*'' @ suffix @ '' was found''))))"

record indexEntry =
  entry_root :: "string option"
  entry_at :: string

definition toIndexEntry :: "string \<Rightarrow> indexEntry" where
  "toIndexEntry path =
     (let start = indexOf path CHR ''/'';
          offset = indexOf path CHR ''@''
      in if offset > 0
         then \<lparr>entry_root = Some (slice path start offset),
               entry_at = slice path (offset + 1) (indexOf path CHR ''.'')\<rparr>
         else \<lparr>entry_root = None,
               entry_at = slice path (start + 1) (indexOf path CHR ''.'')\<rparr>)"

datatype agentMessageQuery = Invocation link | Receipt link

text \<open>The loop of \<open>resolve\<close> over the entries after the first.\<close>

fun first_with_root :: "string list \<Rightarrow> indexEntry \<Rightarrow> indexEntry" where
  "first_with_root [] head = head"
| "first_with_root (path # rest) head =
     (let entry = toIndexEntry path
      in if truthy (entry_root entry) then entry else first_with_root rest head)"

text \<open>
  The choice \<open>resolve\<close> makes among the listed entries. \<open>list\<close> never returns an
  empty list; on one, \<open>toIndexEntry(undefined)\<close> would throw.
\<close>

definition disambiguate :: "string list \<Rightarrow> indexEntry outcome" where
  "disambiguate entries =
     (case entries of
        [] \<Rightarrow> Throw ''TypeError''
      | first # rest \<Rightarrow>
          (let head = toIndexEntry first
           in if truthy (entry_root head) then Ok head
              else Ok (first_with_root rest head)))"

definition resolve :: "store \<Rightarrow> agentMessageQuery \<Rightarrow> indexEntry outcome" where
  "resolve st query =
     (let (prefix, suffix) =
            (case query of
               Invocation invocation \<Rightarrow> (invocation @ ''/'', ''.in'')
             | Receipt receipt \<Rightarrow> (receipt @ ''/'', ''.out''))
      in case agent_list st prefix suffix of
           Ok entries \<Rightarrow> disambiguate entries
         | Error e \<Rightarrow> Error e
         | Throw x \<Rightarrow> Throw x)"

definition load ::
  "('m, 'a, 'i, 'r) ucanto \<Rightarrow> store \<Rightarrow> agentMessageQuery \<Rightarrow> ('a \<times> link option) outcome" where
  "load U st query =
     (case resolve st query of
        Error e \<Rightarrow> Error e
      | Throw x \<Rightarrow> Throw x
      | Ok index \<Rightarrow>
          (case read st (entry_at index) of
             Error readError \<Rightarrow> Error readError
           | Throw x \<Rightarrow> Throw x
           | Ok bytes \<Rightarrow>
               (case codec_decode U bytes of
                  None \<Rightarrow> Throw ''Error''
                | Some archive \<Rightarrow>
                    (case entry_root index of
                       None \<Rightarrow> Ok (archive, None)
                     | Some root \<Rightarrow>
                         if root = [] then Ok (archive, None)
                         else (case parseLink U root of
                                 None \<Rightarrow> Throw ''Error''
                               | Some l \<Rightarrow> Ok (archive, Some l))))))"

definition getInvocation ::
  "('m, 'a, 'i, 'r) ucanto \<Rightarrow> store \<Rightarrow> link \<Rightarrow> 'i outcome" where
  "getInvocation U st task =
     (case load U st (Invocation task) of
        Error e \<Rightarrow> Error e
      | Throw x \<Rightarrow> Throw x
      | Ok (archive, root) \<Rightarrow>
          (let invocation = (case root of None \<Rightarrow> task | Some r \<Rightarrow> r)
           in case invocation_view U invocation archive of
                Some view \<Rightarrow> Ok view
              | None \<Rightarrow> Error (RecordNotFound [])))"

definition getReceipt ::
  "('m, 'a, 'i, 'r) ucanto \<Rightarrow> store \<Rightarrow> link \<Rightarrow> 'r outcome" where
  "getReceipt U st task =
     (case load U st (Invocation task) of
        Error e \<Rightarrow> Error e
      | Throw x \<Rightarrow> Throw x
      | Ok result \<Rightarrow>
          (case resolve st (Receipt task) of
             Error e \<Rightarrow> Error e
           | Throw x \<Rightarrow> Throw x
           | Ok entry \<Rightarrow>
               (case read st (entry_at entry) of
                  Error readError \<Rightarrow> Error readError
                | Throw x \<Rightarrow> Throw x
                | Ok body \<Rightarrow>
                    (let missing = Error (RecordNotFound
                           (''agent message '' @ entry_at entry
                              @ '' does not contain receipt for '' @ task @ '' task''))
                     in if truthy (entry_root entry)
                        then (case codec_decode U body of
                                None \<Rightarrow> Throw ''Error''
                              | Some archive \<Rightarrow>
                                  (case parseLink U (case entry_root entry of Some r \<Rightarrow> r | None \<Rightarrow> []) of
                                     None \<Rightarrow> Throw ''Error''
                                   | Some l \<Rightarrow>
                                       (case receipt_view U l archive of
                                          Some receipt \<Rightarrow> Ok receipt
                                        | None \<Rightarrow> missing)))
                        else (case request_receipts U body of
                                None \<Rightarrow> Throw ''Error''
                              | Some receipts \<Rightarrow>
                                  (case receipts task of
                                     Some receipt \<Rightarrow> Ok receipt
                                   | None \<Rightarrow> missing))))))"

text \<open>
  The pseudo-links of the current scheme as the spec lays them out (section 6): the
  task, \<open>/\<close>, the identifier (the link) of the invocation or receipt, \<open>@\<close>, the
  message, then \<open>.in\<close> for an invocation and \<open>.out\<close> for a receipt, each an empty
  object in the index bucket; and the invocations and receipts a message index encloses.
\<close>

definition incoming_link :: "buckets \<Rightarrow> invocationRecord \<Rightarrow> s3command" where
  "incoming_link bs i =
     PutObjectCommand (index_name bs)
       (inv_task i @ ''/'' @ view_link (inv_invocation i) @ ''@'' @ inv_message i @ ''.in'') None"

definition outgoing_link :: "buckets \<Rightarrow> receiptRecord \<Rightarrow> s3command" where
  "outgoing_link bs r =
     PutObjectCommand (index_name bs)
       (rcp_task r @ ''/'' @ view_link (rcp_receipt r) @ ''@'' @ rcp_message r @ ''.out'') None"

definition invocations_of :: "indexRecord list \<Rightarrow> invocationRecord list" where
  "invocations_of idx = List.map_filter entry_invocation idx"

definition receipts_of :: "indexRecord list \<Rightarrow> receiptRecord list" where
  "receipts_of idx = List.map_filter entry_receipt idx"

text \<open>
  A store with two distinct buckets and nothing in them, a message with one invocation
  and one receipt for the task \<open>bafytask\<close>, and a message with the receipt only.
\<close>

definition empty_store :: store where
  "empty_store =
     \<lparr>channel = \<lparr>objects = [], outage = (\<lambda>c. None)\<rparr>,
      buckets = \<lparr>index_name = ''invocation-store'', message_name = ''workflow-store''\<rparr>\<rparr>"

text \<open>The same with one bucket under both names.\<close>

definition shared_store :: store where
  "shared_store =
     \<lparr>channel = \<lparr>objects = [], outage = (\<lambda>c. None)\<rparr>,
      buckets = \<lparr>index_name = ''agent-store'', message_name = ''agent-store''\<rparr>\<rparr>"

definition task_message :: "'m \<Rightarrow> 'm parsedAgentMessage" where
  "task_message d =
     \<lparr>msg_root_cid = ''bafymessage'',
      msg_data = d,
      msg_headers = [(''content-type'', ''application/vnd.ipld.car'')],
      msg_body = [1, 2, 3],
      msg_index =
        [\<lparr>entry_invocation =
             Some \<lparr>inv_task = ''bafytask'', inv_invocation = \<lparr>view_link = ''bafyinvocation''\<rparr>,
                   inv_message = ''bafymessage''\<rparr>,
           entry_receipt = None\<rparr>,
         \<lparr>entry_invocation = None,
           entry_receipt =
             Some \<lparr>rcp_task = ''bafytask'', rcp_receipt = \<lparr>view_link = ''bafyreceipt''\<rparr>,
                   rcp_message = ''bafymessage''\<rparr>\<rparr>]\<rparr>"

definition receipt_message :: "'m \<Rightarrow> 'm parsedAgentMessage" where
  "receipt_message d =
     \<lparr>msg_root_cid = ''bafyresponse'',
      msg_data = d,
      msg_headers = [(''content-type'', ''application/vnd.ipld.car'')],
      msg_body = [4, 5, 6],
      msg_index =
        [\<lparr>entry_invocation = None,
           entry_receipt =
             Some \<lparr>rcp_task = ''bafytask'', rcp_receipt = \<lparr>view_link = ''bafyreceipt''\<rparr>,
                   rcp_message = ''bafyresponse''\<rparr>\<rparr>]\<rparr>"

section \<open>Redirect handler (roundabout, redirect.js)\<close>

text \<open>
  What the handler imports from files of the repository that are not at hand
  (\<open>../index.js\<close>, \<open>../piece.js\<close>, \<open>../utils.js\<close>) and from multiformats, as
  parameters: the parser of the query parameters and \<open>CID.parse\<close> (\<open>Inl\<close> is the
  message of the error thrown), the two piece tests (\<open>None\<close> is \<open>undefined\<close>), the
  set of equivalent CIDs in its iteration order, and \<open>contentLocationResolver\<close>,
  which from \<open>expiresIn\<close> gives \<open>locateContent\<close> (\<open>None\<close> is \<open>undefined\<close>).
\<close>

record ('q, 'c) roundabout =
  parseQueryStringParameters :: "'q \<Rightarrow> string + nat option"
  CID_parse :: "string \<Rightarrow> string + 'c"
  asPieceCidV2 :: "'c \<Rightarrow> 'c option"
  asPieceCidV1 :: "'c \<Rightarrow> 'c option"
  findEquivalentCids :: "'c \<Rightarrow> 'c list"
  contentLocationResolver :: "nat option \<Rightarrow> 'c \<Rightarrow> string option"

record 'q request =
  queryStringParameters :: 'q
  pathParameters_cid :: "string option"

record httpResponse =
  statusCode :: nat
  resp_body :: "string option"
  headers_Location :: "string option"

definition redirectTo :: "string \<Rightarrow> httpResponse" where
  "redirectTo url = \<lparr>statusCode = 302, resp_body = None, headers_Location = Some url\<rparr>"

text \<open>
  The handler's functions return the response together with the CIDs handed to
  \<open>locateContent\<close>, in the order of the calls.
\<close>

definition resolveContent :: "'c \<Rightarrow> ('c \<Rightarrow> string option) \<Rightarrow> httpResponse \<times> 'c list" where
  "resolveContent cid locateContent =
     (let url = locateContent cid
      in case url of
           Some u \<Rightarrow>
             if u \<noteq> [] then (redirectTo u, [cid])
             else (\<lparr>statusCode = 404, resp_body = Some ''Content Not found'',
                    headers_Location = None\<rparr>, [cid])
         | None \<Rightarrow>
             (\<lparr>statusCode = 404, resp_body = Some ''Content Not found'',
               headers_Location = None\<rparr>, [cid]))"

text \<open>The loop of \<open>resolvePiece\<close> over the set, with the CIDs probed so far.\<close>

fun probe :: "('c \<Rightarrow> string option) \<Rightarrow> 'c list \<Rightarrow> 'c list \<Rightarrow> httpResponse \<times> 'c list" where
  "probe locateContent [] probed =
     (\<lparr>statusCode = 404, resp_body = Some ''No content found for Piece CID'',
       headers_Location = None\<rparr>, probed)"
| "probe locateContent (cid # rest) probed =
     (let url = locateContent cid
      in case url of
           Some u \<Rightarrow>
             if u \<noteq> [] then (redirectTo u, probed @ [cid])
             else probe locateContent rest (probed @ [cid])
         | None \<Rightarrow> probe locateContent rest (probed @ [cid]))"

definition resolvePiece ::
  "('q, 'c) roundabout \<Rightarrow> 'c \<Rightarrow> ('c \<Rightarrow> string option) \<Rightarrow> httpResponse \<times> 'c list" where
  "resolvePiece R cid locateContent =
     (let cids = findEquivalentCids R cid
      in if length cids = 0
         then (\<lparr>statusCode = 404, resp_body = Some ''No equivalent CID for Piece CID found'',
                headers_Location = None\<rparr>, [])
         else probe locateContent cids [])"

definition v1_unsupported :: string where
  "v1_unsupported = ''v1 Piece CIDs are not supported yet. Please provide a V2 Piece CID. https://github.com/filecoin-project/FIPs/blob/master/FRCs/frc-0069.md''"

definition redirectGet :: "('q, 'c) roundabout \<Rightarrow> 'q request \<Rightarrow> httpResponse \<times> 'c list" where
  "redirectGet R request =
     (case parseQueryStringParameters R (queryStringParameters request) of
        Inl message \<Rightarrow>
          (\<lparr>statusCode = 400, resp_body = Some message, headers_Location = None\<rparr>, [])
      | Inr expiresIn \<Rightarrow>
          (let cidString = pathParameters_cid request
           in case CID_parse R (case cidString of None \<Rightarrow> [] | Some c \<Rightarrow> c) of
                Inl message \<Rightarrow>
                  (\<lparr>statusCode = 400, resp_body = Some message, headers_Location = None\<rparr>, [])
              | Inr cid \<Rightarrow>
                  (let locateContent = contentLocationResolver R expiresIn;
                       (response, probed) =
                         (if asPieceCidV2 R cid \<noteq> None
                          then (let (r, p) = resolvePiece R cid locateContent in (Some r, p))
                          else if asPieceCidV1 R cid \<noteq> None
                          then (Some \<lparr>statusCode = 415, resp_body = Some v1_unsupported,
                                      headers_Location = None\<rparr>, [])
                          else (let (r, p) = resolveContent cid locateContent in (Some r, p)))
                   in (case response of
                         Some r \<Rightarrow> r
                       | None \<Rightarrow> \<lparr>statusCode = 415, resp_body = Some ''Unsupported CID type'',
                                   headers_Location = None\<rparr>,
                       probed))))"

text \<open>
  An environment for examples, with CIDs by their strings: \<open>bafkpiece\<close> is a v2 piece
  CID with the equivalent CIDs \<open>bagcar1\<close>, \<open>bagcar2\<close> and \<open>bafkraw\<close>, of which
  \<open>bagcar2\<close> and \<open>bafkraw\<close> are in storage; \<open>bafkorphan\<close> is a v2 piece CID whose
  equivalent CIDs are not in storage; \<open>bagav1piece\<close> is a v1 piece CID; \<open>bafybeidagpb\<close>
  parses, is no piece CID and has no location; \<open>not-a-cid\<close> does not parse.
\<close>

definition example_roundabout :: "(unit, string) roundabout" where
  "example_roundabout =
     \<lparr>parseQueryStringParameters = (\<lambda>q. Inr None),
      CID_parse = (\<lambda>s. if s \<in> set [''bafkpiece'', ''bafkorphan'', ''bagav1piece'', ''bafybeidagpb'',
                                      ''bagcar2'']
                       then Inr s else Inl ''To parse non base32 or base58btc encoded CID multibase decoder must be provided''),
      asPieceCidV2 = (\<lambda>c. if c \<in> set [''bafkpiece'', ''bafkorphan''] then Some c else None),
      asPieceCidV1 = (\<lambda>c. if c = ''bagav1piece'' then Some c else None),
      findEquivalentCids = (\<lambda>c. if c = ''bafkpiece'' then [''bagcar1'', ''bagcar2'', ''bafkraw'']
                                else if c = ''bafkorphan'' then [''bagcar3'', ''bafkraw3'']
                                else []),
      contentLocationResolver = (\<lambda>e c. if c = ''bagcar2'' then Some ''https://carpark/bagcar2/bagcar2.car''
                                      else if c = ''bafkraw'' then Some ''https://carpark/bafkraw/bafkraw.blob''
                                      else None)\<rparr>"

section \<open>Space snapshot records (billing/data/space-snapshot.js)\<close>

text \<open>
  The built-ins of JavaScript that \<open>encode\<close> and \<open>decode\<close> call, as parameters:
  \<open>BigInt.prototype.toString\<close>, \<open>BigInt(string)\<close> (\<open>None\<close> is the
  \<open>SyntaxError\<close> it throws), \<open>Date.prototype.toISOString\<close> on a valid time value,
  and the time value \<open>new Date(string)\<close> parses (\<open>None\<close> is an invalid date). A
  \<open>Date\<close> is its time value in milliseconds, or \<open>None\<close> when it is invalid; a
  bigint is an \<open>int\<close>.
\<close>

record js =
  bigint_toString :: "int \<Rightarrow> string"
  BigInt :: "string \<Rightarrow> int option"
  toISOString :: "int \<Rightarrow> string"
  Date_parse :: "string \<Rightarrow> int option"

record spaceSnapshot =
  snap_provider :: did
  snap_space :: did
  snap_size :: int
  snap_recordedAt :: "int option"
  snap_insertedAt :: "int option"

record spaceSnapshotStoreRecord =
  rec_pk :: string
  rec_space :: string
  rec_provider :: string
  rec_size :: string
  rec_recordedAt :: string
  rec_insertedAt :: string

text \<open>
  \<open>Schema.did({method})\<close> of \<open>@ucanto\<close> accepts the strings that begin with
  \<open>did:\<close>, or with \<open>did:\<close>, the method and a colon when a method is given;
  \<open>from\<close> returns the string it accepts and throws (\<open>None\<close>) otherwise.
\<close>

definition did_from :: "string option \<Rightarrow> string \<Rightarrow> string option" where
  "did_from method source =
     (let prefix = (case method of None \<Rightarrow> ''did:'' | Some m \<Rightarrow> ''did:'' @ m @ '':'')
      in if startsWith source prefix then Some source else None)"

text \<open>
  The snapshot \<open>schema\<close>: a provider that is a \<open>did:web\<close>, a space that is a DID, a
  size that is not negative, and two dates, here required to be valid.
\<close>

definition schema :: "spaceSnapshot \<Rightarrow> bool" where
  "schema x =
     (did_from (Some ''web'') (snap_provider x) \<noteq> None
      \<and> did_from None (snap_space x) \<noteq> None
      \<and> 0 \<le> snap_size x
      \<and> snap_recordedAt x \<noteq> None
      \<and> snap_insertedAt x \<noteq> None)"

text \<open>
  \<open>encode\<close> and \<open>decode\<close>: whatever is thrown inside the \<open>try\<close> becomes the
  failure, whose message begins as the source has it (the message of the error thrown is
  left out). \<open>toISOString\<close> throws on an invalid date.
\<close>

definition encode :: "js \<Rightarrow> spaceSnapshot \<Rightarrow> spaceSnapshotStoreRecord outcome" where
  "encode J input =
     (case snap_recordedAt input of
        None \<Rightarrow> Error (EncodeFailure ''encoding space snapshot record: '')
      | Some recordedAt \<Rightarrow>
          (case snap_insertedAt input of
             None \<Rightarrow> Error (EncodeFailure ''encoding space snapshot record: '')
           | Some insertedAt \<Rightarrow>
               Ok \<lparr>rec_pk = snap_space input @ ''#'' @ snap_provider input,
                   rec_space = snap_space input,
                   rec_provider = snap_provider input,
                   rec_size = bigint_toString J (snap_size input),
                   rec_recordedAt = toISOString J recordedAt,
                   rec_insertedAt = toISOString J insertedAt\<rparr>))"

definition decode :: "js \<Rightarrow> spaceSnapshotStoreRecord \<Rightarrow> spaceSnapshot outcome" where
  "decode J input =
     (case did_from None (rec_space input) of
        None \<Rightarrow> Error (DecodeFailure ''decoding space snapshot record: '')
      | Some space \<Rightarrow>
          (case did_from (Some ''web'') (rec_provider input) of
             None \<Rightarrow> Error (DecodeFailure ''decoding space snapshot record: '')
           | Some provider \<Rightarrow>
               (case BigInt J (rec_size input) of
                  None \<Rightarrow> Error (DecodeFailure ''decoding space snapshot record: '')
                | Some size' \<Rightarrow>
                    Ok \<lparr>snap_provider = provider,
                        snap_space = space,
                        snap_size = size',
                        snap_recordedAt = Date_parse J (rec_recordedAt input),
                        snap_insertedAt = Date_parse J (rec_insertedAt input)\<rparr>)))"

text \<open>
  Built-ins for an example, defined on the values it uses: the size 1024 and the times
  \<open>0\<close> and \<open>86400000\<close>.
\<close>

definition example_js :: js where
  "example_js =
     \<lparr>bigint_toString = (\<lambda>n. if n = 1024 then ''1024'' else ''0''),
      BigInt = (\<lambda>s. if s = ''1024'' then Some 1024 else if s = ''0'' then Some 0 else None),
      toISOString = (\<lambda>t. if t = 86400000 then ''1970-01-02T00:00:00.000Z''
                          else ''1970-01-01T00:00:00.000Z''),
      Date_parse = (\<lambda>s. if s = ''1970-01-02T00:00:00.000Z'' then Some 86400000
                         else if s = ''1970-01-01T00:00:00.000Z'' then Some 0 else None)\<rparr>"

section \<open>Properties of base58btc\<close>

lemma alphabet_distinct: "distinct base58_alphabet"
  by (simp add: base58_alphabet_def)

lemma alphabet_length: "length base58_alphabet = 58"
  by (simp add: base58_alphabet_def)

lemma index_of_nth: "distinct xs \<Longrightarrow> i < length xs \<Longrightarrow> index_of (xs ! i) xs = i"
proof (induction xs arbitrary: i)
  case Nil
  then show ?case by simp
next
  case (Cons x xs)
  show ?case
  proof (cases i)
    case 0
    then show ?thesis by simp
  next
    case (Suc j)
    with Cons.prems have "j < length xs" "distinct xs" "xs ! j \<in> set xs" "x \<notin> set xs"
      by auto
    with Cons.IH[of j] Suc show ?thesis by auto
  qed
qed

lemma digits58_to_nat_snoc:
  "digits58_to_nat (s @ [c]) = digits58_to_nat s * 58 + index_of c base58_alphabet"
  by (simp add: digits58_to_nat_def)

lemma digits58_roundtrip: "digits58_to_nat (digits58 n) = n"
proof (induction n rule: digits58.induct)
  case (1 n)
  show ?case
  proof (cases "n = 0")
    case True
    then show ?thesis by (simp add: digits58.simps digits58_to_nat_def)
  next
    case False
    have "index_of (base58_alphabet ! (n mod 58)) base58_alphabet = n mod 58"
      by (rule index_of_nth) (simp_all add: alphabet_distinct alphabet_length)
    with False 1 show ?thesis
      by (subst digits58.simps) (simp add: digits58_to_nat_snoc)
  qed
qed

lemma digits58_in_alphabet: "set (digits58 n) \<subseteq> set base58_alphabet"
proof (induction n rule: digits58.induct)
  case (1 n)
  show ?case
  proof (cases "n = 0")
    case True
    then show ?thesis by (simp add: digits58.simps)
  next
    case False
    have "base58_alphabet ! (n mod 58) \<in> set base58_alphabet"
      by (rule nth_mem) (simp add: alphabet_length)
    with False 1 show ?thesis by (subst digits58.simps) simp
  qed
qed

lemma alphabet_nth_one: "i < 58 \<Longrightarrow> base58_alphabet ! i = CHR ''1'' \<longleftrightarrow> i = 0"
proof -
  assume i: "i < 58"
  have z: "base58_alphabet ! 0 = CHR ''1''" by (simp add: base58_alphabet_def)
  have "base58_alphabet ! i = base58_alphabet ! 0 \<longleftrightarrow> i = 0"
    using i by (intro nth_eq_iff_index_eq) (simp_all add: alphabet_distinct alphabet_length)
  with z show ?thesis by simp
qed

lemma digits58_no_leading_one:
  "n \<noteq> 0 \<Longrightarrow> digits58 n \<noteq> [] \<and> hd (digits58 n) \<noteq> CHR ''1''"
proof (induction n rule: digits58.induct)
  case (1 n)
  show ?case
  proof (cases "n div 58 = 0")
    case True
    with 1(2) have "n < 58" "n mod 58 = n" by (auto simp: div_eq_0_iff)
    with 1(2) True alphabet_nth_one[of n] show ?thesis
      by (subst (1 2) digits58.simps) (simp add: digits58.simps[of 0])
  next
    case False
    with 1 have "digits58 (n div 58) \<noteq> [] \<and> hd (digits58 (n div 58)) \<noteq> CHR ''1''"
      by simp
    with 1(2) show ?thesis by (subst (1 2) digits58.simps) simp
  qed
qed

lemma takeWhile_replicate_append:
  "ys = [] \<or> hd ys \<noteq> a \<Longrightarrow> takeWhile (\<lambda>c. c = a) (replicate k a @ ys) = replicate k a"
  by (induction k) (auto simp: takeWhile_eq_Nil_iff)

lemma dropWhile_replicate_append:
  "ys = [] \<or> hd ys \<noteq> a \<Longrightarrow> dropWhile (\<lambda>c. c = a) (replicate k a @ ys) = ys"
  by (induction k) (auto simp: dropWhile_eq_self_iff)

lemma bytes_to_nat_snoc: "bytes_to_nat (bs @ [b]) = bytes_to_nat bs * 256 + unat b"
  by (simp add: bytes_to_nat_def)

lemma bytes_to_nat_nonzero: "bs \<noteq> [] \<Longrightarrow> hd bs \<noteq> 0 \<Longrightarrow> bytes_to_nat bs \<noteq> 0"
proof (induction bs rule: rev_induct)
  case Nil
  then show ?case by simp
next
  case (snoc b bs)
  show ?case
  proof (cases "bs = []")
    case True
    with snoc.prems show ?thesis by (simp add: bytes_to_nat_def unat_eq_0)
  next
    case False
    with snoc show ?thesis by (simp add: bytes_to_nat_snoc)
  qed
qed

lemma unat_byte_less: "unat (b :: 8 word) < 256"
  using unsigned_less[of b, where ?'a = nat] by simp

lemma bytes_roundtrip: "bs = [] \<or> hd bs \<noteq> 0 \<Longrightarrow> nat_to_bytes (bytes_to_nat bs) = bs"
proof (induction bs rule: rev_induct)
  case Nil
  then show ?case by (simp add: bytes_to_nat_def nat_to_bytes.simps)
next
  case (snoc b bs)
  have nz: "bytes_to_nat (bs @ [b]) \<noteq> 0"
    using snoc.prems by (intro bytes_to_nat_nonzero) auto
  have pre: "bs = [] \<or> hd bs \<noteq> 0" using snoc.prems by (cases bs) auto
  have d: "bytes_to_nat (bs @ [b]) div 256 = bytes_to_nat bs"
    using unat_byte_less[of b] by (simp add: bytes_to_nat_snoc)
  have m: "bytes_to_nat (bs @ [b]) mod 256 = unat b"
    using unat_byte_less[of b] by (simp add: bytes_to_nat_snoc)
  show ?case
    using nz d m snoc.IH[OF pre] by (subst nat_to_bytes.simps) simp
qed

lemma dropWhile_zero_head:
  "dropWhile (\<lambda>b. b = 0) bs = [] \<or> hd (dropWhile (\<lambda>b. b = 0) bs) \<noteq> (0 :: 8 word)"
  using hd_dropWhile[of "\<lambda>b. b = 0" bs] by auto

lemma takeWhile_zero_replicate:
  "replicate (length (takeWhile (\<lambda>b. b = 0) bs)) (0 :: 8 word) = takeWhile (\<lambda>b. b = 0) bs"
  by (induction bs) auto

lemma base58btc_roundtrip: "base58btc_decode (base58btc_encode bs) = Some bs"
proof -
  define k where "k = length (takeWhile (\<lambda>b. b = 0) bs)"
  define n where "n = bytes_to_nat (dropWhile (\<lambda>b. b = 0) bs)"
  have hd1: "digits58 n = [] \<or> hd (digits58 n) \<noteq> CHR ''1''"
    using digits58_no_leading_one[of n] by (cases "n = 0") (simp_all add: digits58.simps)
  have one: "CHR ''1'' \<in> set base58_alphabet"
    by (simp add: base58_alphabet_def)
  have ok: "\<not> list_ex (\<lambda>c. c \<notin> set base58_alphabet) (replicate k CHR ''1'' @ digits58 n)"
    using digits58_in_alphabet[of n] one by (auto simp: list_ex_iff)
  have "base58btc_decode (base58btc_encode bs)
      = Some (replicate k 0 @ nat_to_bytes (digits58_to_nat (digits58 n)))"
    unfolding base58btc_encode_def base58btc_decode_def k_def[symmetric] n_def[symmetric]
    using ok hd1 by (simp add: takeWhile_replicate_append dropWhile_replicate_append)
  also have "\<dots> = Some (takeWhile (\<lambda>b. b = 0) bs @ dropWhile (\<lambda>b. b = 0) bs)"
    using bytes_roundtrip[OF dropWhile_zero_head[of bs]]
    by (simp add: digits58_roundtrip n_def k_def takeWhile_zero_replicate)
  finally show ?thesis by simp
qed

lemma base58btc_encode_inject: "base58btc_encode a = base58btc_encode b \<Longrightarrow> a = b"
  by (metis base58btc_roundtrip option.inject)

section \<open>Properties of the Allocation Ledger\<close>

lemma key_of_getKey: "key_of (getKey s d) = Some (s, base58btc_encode d)"
  by (simp add: key_of_def getKey_def)

lemma lookup_put: "lookup (filter (\<lambda>i. item_key i \<noteq> item_key it) its @ [it]) (item_key it) = Some it"
  by (induction its) (auto simp: lookup_def)

lemma lookup_delete: "lookup (filter (\<lambda>i. item_key i \<noteq> k) its) k = None"
  by (induction its) (auto simp: lookup_def)

lemma lookup_key: "lookup its k = Some i \<Longrightarrow> item_key i = k"
  by (induction its) (auto simp: lookup_def split: if_splits)

lemma insert_sends_one_conditional_put:
  "sent (snd (allocations_insert fault db input now)) =
     sent db @ [PutItemCommand
        \<lparr>item_space = input_space input,
         item_multihash = base58btc_encode (blob_digest (input_blob input)),
         item_size = blob_size (input_blob input),
         item_cause = input_cause input,
         item_insertedAt = now\<rparr> attribute_not_exists]"
  by (auto simp: allocations_insert_def send_def Let_def split: option.splits prod.splits sum.splits)

lemma insert_ok_items:
  assumes "allocations_insert fault db input now = (Ok b, db1)"
  shows "lookup (items db1) (input_space input, base58btc_encode (blob_digest (input_blob input)))
     = Some \<lparr>item_space = input_space input,
         item_multihash = base58btc_encode (blob_digest (input_blob input)),
         item_size = blob_size (input_blob input),
         item_cause = input_cause input,
         item_insertedAt = now\<rparr>"
proof -
  let ?it = "\<lparr>item_space = input_space input,
         item_multihash = base58btc_encode (blob_digest (input_blob input)),
         item_size = blob_size (input_blob input),
         item_cause = input_cause input,
         item_insertedAt = now\<rparr>"
  have k: "item_key ?it = (input_space input, base58btc_encode (blob_digest (input_blob input)))"
    by (simp add: item_key_def)
  from assms have "items db1 = filter (\<lambda>i. item_key i \<noteq> item_key ?it) (items db) @ [?it]"
    by (auto simp: allocations_insert_def send_def Let_def split: option.splits prod.splits sum.splits if_splits)
  then show ?thesis using lookup_put[of ?it "items db"] k by simp
qed

lemma exists_present:
  "lookup (items db) (s, base58btc_encode d) = Some it \<Longrightarrow> fst (allocations_exists None db s d) = Ok True"
  by (simp add: allocations_exists_def send_def key_of_getKey Let_def)

lemma get_present:
  "lookup (items db) (s, base58btc_encode d) = Some it \<Longrightarrow>
   fst (allocations_get None db s d) =
     Ok \<lparr>allocation_blob = \<lparr>blob_digest = d, blob_size = item_size it\<rparr>, allocation_cause = item_cause it\<rparr>"
  using lookup_key[of "items db" "(s, base58btc_encode d)" it]
  by (simp add: allocations_get_def send_def key_of_getKey Let_def item_key_def base58btc_roundtrip)

lemma insert_present:
  "lookup (items db) (input_space input, base58btc_encode (blob_digest (input_blob input))) = Some it \<Longrightarrow>
   allocations_insert None db input now = (Error RecordKeyConflict, db\<lparr>sent := sent db @ [PutItemCommand
        \<lparr>item_space = input_space input,
         item_multihash = base58btc_encode (blob_digest (input_blob input)),
         item_size = blob_size (input_blob input),
         item_cause = input_cause input,
         item_insertedAt = now\<rparr> attribute_not_exists]\<rparr>)"
  by (simp add: allocations_insert_def send_def Let_def item_key_def)


text \<open>
  Claim C1. After a successful \<open>insert\<close> of \<open>(space, digest)\<close>, on a backend that
  answers, \<open>exists\<close> returns true and \<open>get\<close> returns the inserted blob and cause; another
  \<open>insert\<close> for the same space and digest (whatever its size and cause) fails with
  \<open>RecordKeyConflict\<close>; and \<open>insert\<close> sent the store exactly one command, the put
  conditional on the key's absence, with no read before it.
\<close>

theorem insert_then_exists_get_conflict:
  assumes "allocations_insert fault db input now = (Ok b, db1)"
  shows "fst (allocations_exists None db1 (input_space input) (blob_digest (input_blob input))) = Ok True
       \<and> fst (allocations_get None db1 (input_space input) (blob_digest (input_blob input)))
           = Ok \<lparr>allocation_blob = \<lparr>blob_digest = blob_digest (input_blob input),
                                    blob_size = blob_size (input_blob input)\<rparr>,
                  allocation_cause = input_cause input\<rparr>
       \<and> (input_space again = input_space input \<and>
            blob_digest (input_blob again) = blob_digest (input_blob input)
            \<longrightarrow> fst (allocations_insert None db1 again now') = Error RecordKeyConflict)
       \<and> sent db1 = sent db @ [PutItemCommand
            \<lparr>item_space = input_space input,
             item_multihash = base58btc_encode (blob_digest (input_blob input)),
             item_size = blob_size (input_blob input),
             item_cause = input_cause input,
             item_insertedAt = now\<rparr> attribute_not_exists]"
proof -
  note present = insert_ok_items[OF assms]
  have e: "fst (allocations_exists None db1 (input_space input) (blob_digest (input_blob input))) = Ok True"
    using exists_present[OF present] .
  have g: "fst (allocations_get None db1 (input_space input) (blob_digest (input_blob input)))
           = Ok \<lparr>allocation_blob = \<lparr>blob_digest = blob_digest (input_blob input),
                                    blob_size = blob_size (input_blob input)\<rparr>,
                  allocation_cause = input_cause input\<rparr>"
    using get_present[OF present] by simp
  have c: "input_space again = input_space input \<and>
            blob_digest (input_blob again) = blob_digest (input_blob input)
            \<longrightarrow> fst (allocations_insert None db1 again now') = Error RecordKeyConflict"
    using insert_present[of db1 again _ now'] present by simp
  have l: "sent db1 = sent db @ [PutItemCommand
            \<lparr>item_space = input_space input,
             item_multihash = base58btc_encode (blob_digest (input_blob input)),
             item_size = blob_size (input_blob input),
             item_cause = input_cause input,
             item_insertedAt = now\<rparr> attribute_not_exists]"
    using insert_sends_one_conditional_put[of fault db input now] assms by simp
  from e g c l show ?thesis by blast
qed

theorem insert_then_exists_get_conflict_witness:
  "(let input = \<lparr>input_space = ''did:key:alice'',
                  input_blob = \<lparr>blob_digest = [18, 32, 7], blob_size = 42\<rparr>,
                  input_cause = ''bafyreicause''\<rparr>;
        db1 = snd (allocations_insert None \<lparr>items = [], sent = []\<rparr> input ''2024-01-01T00:00:00.000Z'')
    in fst (allocations_insert None \<lparr>items = [], sent = []\<rparr> input ''2024-01-01T00:00:00.000Z'')
         = Ok \<lparr>blob_digest = [18, 32, 7], blob_size = 42\<rparr>
     \<and> fst (allocations_exists None db1 ''did:key:alice'' [18, 32, 7]) = Ok True
     \<and> fst (allocations_get None db1 ''did:key:alice'' [18, 32, 7])
         = Ok \<lparr>allocation_blob = \<lparr>blob_digest = [18, 32, 7], blob_size = 42\<rparr>,
                allocation_cause = ''bafyreicause''\<rparr>
     \<and> fst (allocations_insert None db1 input ''2024-01-02T00:00:00.000Z'') = Error RecordKeyConflict
     \<and> length (sent db1) = 1)"
proof -
  define input where "input = \<lparr>input_space = ''did:key:alice'',
                  input_blob = \<lparr>blob_digest = [18, 32, 7 :: 8 word], blob_size = 42\<rparr>,
                  input_cause = ''bafyreicause''\<rparr>"
  define db0 where "db0 = \<lparr>items = [], sent = []\<rparr>"
  define db1 where "db1 = snd (allocations_insert None db0 input ''2024-01-01T00:00:00.000Z'')"
  have h: "allocations_insert None db0 input ''2024-01-01T00:00:00.000Z'' = (Ok (input_blob input), db1)"
    by (simp add: db1_def db0_def allocations_insert_def send_def lookup_def Let_def)
  have f: "fst (allocations_insert None db0 input ''2024-01-01T00:00:00.000Z'') = Ok (input_blob input)"
    by (simp add: db0_def allocations_insert_def send_def lookup_def Let_def)
  from insert_then_exists_get_conflict[OF h, of input "''2024-01-02T00:00:00.000Z''"] f
  show ?thesis
    by (simp add: input_def db0_def db1_def Let_def)
qed

lemma remove_absent:
  "lookup (items db) (s, base58btc_encode d) = None \<Longrightarrow>
   allocations_remove None db s d = (Ok 0, db\<lparr>sent := sent db @ [DeleteItemCommand (getKey s d) attribute_exists]\<rparr>)"
  by (simp add: allocations_remove_def send_def key_of_getKey Let_def)

lemma remove_present:
  "lookup (items db) (s, base58btc_encode d) = Some it \<Longrightarrow>
   allocations_remove None db s d =
     (Ok (item_size it),
      \<lparr>items = filter (\<lambda>i. item_key i \<noteq> (s, base58btc_encode d)) (items db),
       sent = sent db @ [DeleteItemCommand (getKey s d) attribute_exists]\<rparr>)"
  by (simp add: allocations_remove_def send_def key_of_getKey Let_def)

lemma remove_lookup_after:
  "lookup (items (snd (allocations_remove None db s d))) (s, base58btc_encode d) = None"
proof (cases "lookup (items db) (s, base58btc_encode d)")
  case None
  then show ?thesis by (simp add: remove_absent)
next
  case (Some it)
  then show ?thesis by (simp add: remove_present lookup_delete)
qed

text \<open>
  Claim C2. \<open>remove\<close> of a key that has no record returns \<open>{ok: {size: 0}}\<close>; of a key
  with a record it returns that record's size; a second \<open>remove\<close> of the same key
  always returns size 0; and a backend failure whose name is not
  \<open>ConditionalCheckFailedException\<close> is returned as \<open>StorageOperationFailed\<close>.
\<close>

theorem remove_returns_size_or_zero:
  "(lookup (items db) (s, base58btc_encode d) = None
      \<longrightarrow> fst (allocations_remove None db s d) = Ok 0)
   \<and> (\<forall>it. lookup (items db) (s, base58btc_encode d) = Some it
      \<longrightarrow> fst (allocations_remove None db s d) = Ok (item_size it))
   \<and> fst (allocations_remove None (snd (allocations_remove None db s d)) s d) = Ok 0
   \<and> (name \<noteq> ''ConditionalCheckFailedException''
      \<longrightarrow> fst (allocations_remove (Some name) db s d) = Error (StorageOperationFailed name))"
proof -
  have a: "lookup (items db) (s, base58btc_encode d) = None
      \<longrightarrow> fst (allocations_remove None db s d) = Ok 0"
    by (simp add: remove_absent)
  have b: "\<forall>it. lookup (items db) (s, base58btc_encode d) = Some it
      \<longrightarrow> fst (allocations_remove None db s d) = Ok (item_size it)"
    by (simp add: remove_present)
  have c: "fst (allocations_remove None (snd (allocations_remove None db s d)) s d) = Ok 0"
    using remove_absent[OF remove_lookup_after[of db s d]] by simp
  have e: "name \<noteq> ''ConditionalCheckFailedException''
      \<longrightarrow> fst (allocations_remove (Some name) db s d) = Error (StorageOperationFailed name)"
    by (simp add: allocations_remove_def send_def Let_def)
  from a b c e show ?thesis by blast
qed

theorem remove_returns_size_or_zero_witness:
  "(let it = \<lparr>item_space = ''did:key:alice'', item_multihash = base58btc_encode [18, 32, 7],
               item_size = 42, item_cause = ''bafyreicause'',
               item_insertedAt = ''2024-01-01T00:00:00.000Z''\<rparr>;
        db = \<lparr>items = [it], sent = []\<rparr>
    in fst (allocations_remove None db ''did:key:alice'' [18, 32, 7]) = Ok 42
     \<and> fst (allocations_remove None (snd (allocations_remove None db ''did:key:alice'' [18, 32, 7]))
              ''did:key:alice'' [18, 32, 7]) = Ok 0
     \<and> fst (allocations_remove None \<lparr>items = [], sent = []\<rparr> ''did:key:alice'' [18, 32, 7]) = Ok 0
     \<and> fst (allocations_remove (Some ''ProvisionedThroughputExceededException'') db
              ''did:key:alice'' [18, 32, 7])
         = Error (StorageOperationFailed ''ProvisionedThroughputExceededException''))"
proof -
  define it where "it = \<lparr>item_space = ''did:key:alice'', item_multihash = base58btc_encode [18, 32, 7],
               item_size = 42, item_cause = ''bafyreicause'',
               item_insertedAt = ''2024-01-01T00:00:00.000Z''\<rparr>"
  define db where "db = \<lparr>items = [it], sent = []\<rparr>"
  have p: "lookup (items db) (''did:key:alice'', base58btc_encode [18, 32, 7]) = Some it"
    by (simp add: db_def it_def lookup_def item_key_def)
  have q: "lookup (items \<lparr>items = [], sent = []\<rparr>) (''did:key:alice'', base58btc_encode [18, 32, 7]) = None"
    by (simp add: lookup_def)
  have n: "''ProvisionedThroughputExceededException'' \<noteq> ''ConditionalCheckFailedException''"
    by simp
  from remove_returns_size_or_zero[of db "''did:key:alice''" "[18, 32, 7]"
         "''ProvisionedThroughputExceededException''"] p n
       remove_returns_size_or_zero[of "\<lparr>items = [], sent = []\<rparr>" "''did:key:alice''" "[18, 32, 7]"
         "''ProvisionedThroughputExceededException''"] q
  show ?thesis
    by (simp add: Let_def db_def it_def)
qed

lemma those_toBlobListResult:
  "list_all canonical page \<Longrightarrow>
   \<exists>rs. those (map toBlobListResult page) = Some rs \<and> map listed rs = map stored page"
proof (induction page)
  case Nil
  then show ?case by simp
next
  case (Cons i page)
  then obtain rs where rs: "those (map toBlobListResult page) = Some rs"
      "map listed rs = map stored page" by auto
  from Cons.prems obtain d where d: "base58btc_decode (item_multihash i) = Some d"
      "base58btc_encode d = item_multihash i"
    by (auto simp: canonical_def split: option.splits)
  define x where "x = \<lparr>li_blob = \<lparr>blob_digest = d, blob_size = item_size i\<rparr>,
                        li_insertedAt = item_insertedAt i\<rparr>"
  have t: "toBlobListResult i = Some x"
    using d by (simp add: toBlobListResult_def x_def)
  have l: "listed x = stored i"
    using d by (simp add: listed_def stored_def x_def)
  have "those (map toBlobListResult (i # page)) = Some (x # rs)"
    using t rs by simp
  moreover have "map listed (x # rs) = map stored (i # page)"
    using l rs by simp
  ultimately show ?case by blast
qed

lemma rev_take_rev: "rev (take n (rev xs)) = drop (length xs - n) xs"
  by (simp add: rev_take)

lemma sorted_space_records: "sorted (map item_multihash (space_records db sp))"
  by (simp add: space_records_def)

lemma space_records_subset: "set (space_records db sp) \<subseteq> set (items db)"
  by (auto simp: space_records_def)

lemma query_items_no_start:
  "query_items (items db) sp limit forward None =
     take limit (if forward then space_records db sp else rev (space_records db sp))"
  by (simp add: query_items_def space_records_def Let_def)

lemma list_cursor_rejected:
  "opt_cursor options = Some c \<Longrightarrow> c \<noteq> [] \<Longrightarrow>
   fst (allocations_list None db sp options) = Throw ''ValidationException''"
  by (simp add: allocations_list_def send_def key_of_def Let_def)


lemma canonical_page:
  "list_all canonical (items db) \<Longrightarrow>
   list_all canonical (take n (if fwd then space_records db sp else rev (space_records db sp)))"
proof -
  assume a: "list_all canonical (items db)"
  have "set (take n (if fwd then space_records db sp else rev (space_records db sp)))
          \<subseteq> set (items db)"
    using space_records_subset[of db sp] set_take_subset[of n "space_records db sp"]
      set_take_subset[of n "rev (space_records db sp)"] by auto
  with a show ?thesis by (auto simp: list_all_iff)
qed

lemma last_key_multihash:
  "(case last_evaluated_key limit page of None \<Rightarrow> None | Some k \<Rightarrow> map_of k ''multihash'')
     = (if page \<noteq> [] \<and> length page = limit then Some (item_multihash (last page)) else None)"
  by (simp add: last_evaluated_key_def)

lemma list_no_cursor:
  assumes c: "list_all canonical (items db)" and n: "opt_cursor options = None"
  shows "\<exists>rs. map listed rs =
            map stored (take (or_default (opt_size options) 20)
              (if opt_pre options = Some True then rev (space_records db sp) else space_records db sp))
       \<and> fst (allocations_list None db sp options) =
           Ok \<lparr>lr_size = length rs,
               lr_before = (if opt_pre options = Some True
                            then (if rs \<noteq> [] \<and> length rs = or_default (opt_size options) 20
                                  then Some (fst (listed (last rs))) else None)
                            else (if rs = [] then None else Some (fst (listed (hd rs))))),
               lr_after = (if opt_pre options = Some True
                            then (if rs = [] then None else Some (fst (listed (hd rs))))
                            else (if rs \<noteq> [] \<and> length rs = or_default (opt_size options) 20
                                  then Some (fst (listed (last rs))) else None)),
               lr_cursor = (if opt_pre options = Some True
                            then (if rs = [] then None else Some (fst (listed (hd rs))))
                            else (if rs \<noteq> [] \<and> length rs = or_default (opt_size options) 20
                                  then Some (fst (listed (last rs))) else None)),
               lr_results = (if opt_pre options = Some True then rev rs else rs)\<rparr>"
proof -
  define limit where "limit = or_default (opt_size options) 20"
  define pre where "pre = (opt_pre options = Some True)"
  define page where "page = take limit (if \<not> pre then space_records db sp else rev (space_records db sp))"
  have cp: "list_all canonical page"
    unfolding page_def using canonical_page[OF c] .
  from those_toBlobListResult[OF cp] obtain rs where
    rs: "those (map toBlobListResult page) = Some rs" "map listed rs = map stored page"
    by blast
  have len: "length rs = length page"
    using rs(2) by (metis length_map)
  have first: "(case rs of [] \<Rightarrow> None | r0 # _ \<Rightarrow> Some (base58btc_encode (blob_digest (li_blob r0))))
                 = (if rs = [] then None else Some (fst (listed (hd rs))))"
    by (cases rs) (simp_all add: listed_def)
  have lastm: "page \<noteq> [] \<Longrightarrow> item_multihash (last page) = fst (listed (last rs))"
  proof -
    assume ne: "page \<noteq> []"
    then have "rs \<noteq> []" using len by auto
    have "fst (listed (last rs)) = fst (last (map listed rs))"
      using \<open>rs \<noteq> []\<close> by (simp add: last_map)
    also have "\<dots> = fst (last (map stored page))" using rs(2) by simp
    also have "\<dots> = item_multihash (last page)" using ne by (simp add: last_map stored_def)
    finally show ?thesis by simp
  qed
  have lastk: "(case last_evaluated_key limit page of None \<Rightarrow> None | Some k \<Rightarrow> map_of k ''multihash'')
     = (if rs \<noteq> [] \<and> length rs = limit then Some (fst (listed (last rs))) else None)"
    using lastm len by (auto simp: last_key_multihash)
  have run: "allocations_list None db sp options =
     (Ok \<lparr>lr_size = length rs,
          lr_before = (if pre then (if rs \<noteq> [] \<and> length rs = limit then Some (fst (listed (last rs))) else None)
                       else (if rs = [] then None else Some (fst (listed (hd rs))))),
          lr_after = (if pre then (if rs = [] then None else Some (fst (listed (hd rs))))
                      else (if rs \<noteq> [] \<and> length rs = limit then Some (fst (listed (last rs))) else None)),
          lr_cursor = (if pre then (if rs = [] then None else Some (fst (listed (hd rs))))
                      else (if rs \<noteq> [] \<and> length rs = limit then Some (fst (listed (last rs))) else None)),
          lr_results = (if pre then rev rs else rs)\<rparr>,
      \<lparr>items = items db,
       sent = sent db @ [QueryCommand sp limit (\<not> pre) None]\<rparr>)"
    unfolding allocations_list_def send_def
    using n rs(1) first lastk
    by (simp add: Let_def query_items_no_start limit_def[symmetric] pre_def[symmetric]
          page_def[symmetric])
  have m: "map listed rs = map stored (take limit (if pre then rev (space_records db sp) else space_records db sp))"
    using rs(2) by (simp add: page_def)
  from run m show ?thesis
    unfolding limit_def pre_def by (intro exI[of _ rs]) simp
qed


lemma fst_stored: "map fst (map stored xs) = map item_multihash xs"
  by (simp add: stored_def)

lemma sorted_stored_take: "sorted (map fst (map stored (take n (space_records db sp))))"
  unfolding fst_stored take_map[symmetric]
  by (rule sorted_wrt_take) (rule sorted_space_records)

lemma sorted_stored_drop: "sorted (map fst (map stored (drop n (space_records db sp))))"
  unfolding fst_stored drop_map[symmetric]
  by (rule sorted_wrt_drop) (rule sorted_space_records)

text \<open>
  Claim C3, as amended. On a backend that answers, for a table whose multihashes are
  canonical, \<open>list\<close> without a cursor returns at most \<open>size || 20\<close> records (20 when no
  size is given). They are ordered ascending by the base58btc multihash, the table's sort
  key, in both directions: scanning forward they are the records of the space with the
  least keys, with \<open>pre\<close> those with the greatest keys, the backward scan reversed
  again. \<open>cursor\<close> always equals \<open>after\<close>. Forward, \<open>before\<close> is the first record's
  multihash and \<open>after\<close> the last record's when the page is full; with \<open>pre\<close>,
  \<open>after\<close> is the last (greatest) record's multihash and \<open>before\<close> the first
  record's when the page is full.
\<close>

theorem list_first_page:
  assumes "list_all canonical (items db)" and "opt_cursor options = None"
  shows "\<exists>r. fst (allocations_list None db sp options) = Ok r
     \<and> length (lr_results r) \<le> or_default (opt_size options) 20
     \<and> or_default None 20 = 20
     \<and> lr_size r = length (lr_results r)
     \<and> map listed (lr_results r) = map stored
          (if opt_pre options = Some True
           then drop (length (space_records db sp) - or_default (opt_size options) 20)
                  (space_records db sp)
           else take (or_default (opt_size options) 20) (space_records db sp))
     \<and> sorted (map fst (map listed (lr_results r)))
     \<and> lr_cursor r = lr_after r
     \<and> (opt_pre options \<noteq> Some True \<longrightarrow>
          lr_before r = (if lr_results r = [] then None
                         else Some (fst (listed (hd (lr_results r)))))
        \<and> lr_after r = (if lr_results r \<noteq> []
                           \<and> length (lr_results r) = or_default (opt_size options) 20
                         then Some (fst (listed (last (lr_results r)))) else None))
     \<and> (opt_pre options = Some True \<longrightarrow>
          lr_after r = (if lr_results r = [] then None
                        else Some (fst (listed (last (lr_results r)))))
        \<and> lr_before r = (if lr_results r \<noteq> []
                           \<and> length (lr_results r) = or_default (opt_size options) 20
                          then Some (fst (listed (hd (lr_results r)))) else None))"
proof -
  define limit where "limit = or_default (opt_size options) 20"
  define part where "part = space_records db sp"
  note ex = list_no_cursor[OF assms, of sp, folded limit_def part_def]
  from ex obtain rs where both:
    "map listed rs = map stored (take limit (if opt_pre options = Some True then rev part else part))
    \<and> fst (allocations_list None db sp options) =
           Ok \<lparr>lr_size = length rs,
               lr_before = (if opt_pre options = Some True
                            then (if rs \<noteq> [] \<and> length rs = limit
                                  then Some (fst (listed (last rs))) else None)
                            else (if rs = [] then None else Some (fst (listed (hd rs))))),
               lr_after = (if opt_pre options = Some True
                            then (if rs = [] then None else Some (fst (listed (hd rs))))
                            else (if rs \<noteq> [] \<and> length rs = limit
                                  then Some (fst (listed (last rs))) else None)),
               lr_cursor = (if opt_pre options = Some True
                            then (if rs = [] then None else Some (fst (listed (hd rs))))
                            else (if rs \<noteq> [] \<and> length rs = limit
                                  then Some (fst (listed (last rs))) else None)),
               lr_results = (if opt_pre options = Some True then rev rs else rs)\<rparr>" ..
  note m = both[THEN conjunct1] and run = both[THEN conjunct2]
  define r where "r = \<lparr>lr_size = length rs,
               lr_before = (if opt_pre options = Some True
                            then (if rs \<noteq> [] \<and> length rs = limit
                                  then Some (fst (listed (last rs))) else None)
                            else (if rs = [] then None else Some (fst (listed (hd rs))))),
               lr_after = (if opt_pre options = Some True
                            then (if rs = [] then None else Some (fst (listed (hd rs))))
                            else (if rs \<noteq> [] \<and> length rs = limit
                                  then Some (fst (listed (last rs))) else None)),
               lr_cursor = (if opt_pre options = Some True
                            then (if rs = [] then None else Some (fst (listed (hd rs))))
                            else (if rs \<noteq> [] \<and> length rs = limit
                                  then Some (fst (listed (last rs))) else None)),
               lr_results = (if opt_pre options = Some True then rev rs else rs)\<rparr>"
  have r: "fst (allocations_list None db sp options) = Ok r"
    using run by (simp only: r_def)
  have sz: "lr_size r = length rs" by (simp add: r_def)
  have res: "lr_results r = (if opt_pre options = Some True then rev rs else rs)"
    by (simp add: r_def)
  have bef: "lr_before r = (if opt_pre options = Some True
                            then (if rs \<noteq> [] \<and> length rs = limit
                                  then Some (fst (listed (last rs))) else None)
                            else (if rs = [] then None else Some (fst (listed (hd rs)))))"
    by (simp add: r_def)
  have aft: "lr_after r = (if opt_pre options = Some True
                            then (if rs = [] then None else Some (fst (listed (hd rs))))
                            else (if rs \<noteq> [] \<and> length rs = limit
                                  then Some (fst (listed (last rs))) else None))"
    by (simp add: r_def)
  have cur: "lr_cursor r = lr_after r" by (simp add: r_def)
  have len: "length rs \<le> limit"
  proof -
    have "length (map listed rs) =
        length (map stored (take limit (if opt_pre options = Some True then rev part else part)))"
      by (simp only: m)
    then show ?thesis by simp
  qed
  have lr: "length (lr_results r) = length rs" using res by simp
  have rows: "map listed (lr_results r) = map stored
          (if opt_pre options = Some True then drop (length part - limit) part
           else take limit part)"
  proof (cases "opt_pre options = Some True")
    case True
    then have "map listed (lr_results r) = rev (map listed rs)" using res by (simp add: rev_map)
    also have "\<dots> = map stored (rev (take limit (rev part)))" using m True by (simp add: rev_map)
    finally show ?thesis using True by (simp add: rev_take_rev)
  next
    case False
    then show ?thesis using m res by simp
  qed
  have srt: "sorted (map fst (map listed (lr_results r)))"
    unfolding rows part_def using sorted_stored_take sorted_stored_drop
    by (cases "opt_pre options = Some True") simp_all
  have fwd: "opt_pre options \<noteq> Some True \<longrightarrow>
          lr_before r = (if lr_results r = [] then None
                         else Some (fst (listed (hd (lr_results r)))))
        \<and> lr_after r = (if lr_results r \<noteq> [] \<and> length (lr_results r) = limit
                         then Some (fst (listed (last (lr_results r)))) else None)"
    using bef aft res by simp
  have bwd: "opt_pre options = Some True \<longrightarrow>
          lr_after r = (if lr_results r = [] then None
                        else Some (fst (listed (last (lr_results r)))))
        \<and> lr_before r = (if lr_results r \<noteq> [] \<and> length (lr_results r) = limit
                          then Some (fst (listed (hd (lr_results r)))) else None)"
    using bef aft res by (simp add: last_rev hd_rev)
  have dflt: "or_default None 20 = 20" by (simp add: or_default_def)
  have len': "length (lr_results r) \<le> limit" using len lr by simp
  have sz': "lr_size r = length (lr_results r)" using sz lr by simp
  show ?thesis
    unfolding limit_def[symmetric] part_def[symmetric]
    using r len' dflt sz' rows srt cur fwd bwd by blast
qed

theorem list_first_page_witness:
  "\<exists>r. fst (allocations_list None two_allocations ''did:key:alice''
               \<lparr>opt_cursor = None, opt_size = None, opt_pre = Some True\<rparr>) = Ok r
     \<and> length (lr_results r) \<le> 20
     \<and> map listed (lr_results r) =
           [(''z2'', 20, ''2024-01-02T00:00:00.000Z''), (''z3'', 10, ''2024-01-01T00:00:00.000Z'')]
     \<and> sorted (map fst (map listed (lr_results r)))
     \<and> lr_cursor r = Some ''z3''"
proof -
  define opts where "opts = \<lparr>opt_cursor = None, opt_size = None, opt_pre = Some True\<rparr>"
  have c: "list_all canonical (items two_allocations)" by code_simp
  have n: "opt_cursor opts = None" by (simp add: opts_def)
  have p: "map stored (space_records two_allocations ''did:key:alice'') =
           [(''z2'', 20, ''2024-01-02T00:00:00.000Z''), (''z3'', 10, ''2024-01-01T00:00:00.000Z'')]"
    by code_simp
  have "length (map stored (space_records two_allocations ''did:key:alice'')) = 2"
    by (simp only: p) simp
  then have lenp: "length (space_records two_allocations ''did:key:alice'') - 20 = 0"
    by simp
  have lim: "or_default (opt_size opts) 20 = 20" by (simp add: opts_def or_default_def)
  have pre: "opt_pre opts = Some True" by (simp add: opts_def)
  from list_first_page[OF c n, of "''did:key:alice''"] show ?thesis
  proof (elim exE conjE)
    fix r
    assume r: "fst (allocations_list None two_allocations ''did:key:alice'' opts) = Ok r"
    and l: "length (lr_results r) \<le> or_default (opt_size opts) 20"
    and m: "map listed (lr_results r) = map stored
          (if opt_pre opts = Some True
           then drop (length (space_records two_allocations ''did:key:alice'')
                        - or_default (opt_size opts) 20)
                  (space_records two_allocations ''did:key:alice'')
           else take (or_default (opt_size opts) 20)
                  (space_records two_allocations ''did:key:alice''))"
    and s: "sorted (map fst (map listed (lr_results r)))"
    and cur: "lr_cursor r = lr_after r"
    and bwd: "opt_pre opts = Some True \<longrightarrow>
          lr_after r = (if lr_results r = [] then None
                        else Some (fst (listed (last (lr_results r)))))
        \<and> lr_before r = (if lr_results r \<noteq> []
                           \<and> length (lr_results r) = or_default (opt_size opts) 20
                          then Some (fst (listed (hd (lr_results r)))) else None)"
    have m': "map listed (lr_results r) =
           [(''z2'', 20, ''2024-01-02T00:00:00.000Z''), (''z3'', 10, ''2024-01-01T00:00:00.000Z'')]"
      using m pre lim lenp p by simp
    have ne: "lr_results r \<noteq> []" using m' by auto
    have "fst (listed (last (lr_results r))) = fst (last (map listed (lr_results r)))"
      using ne by (simp add: last_map)
    also have "\<dots> = ''z3''" by (simp only: m') simp
    finally have z: "lr_cursor r = Some ''z3''" using bwd pre cur ne by simp
    have l': "length (lr_results r) \<le> 20" using l lim by simp
    show ?thesis
      by (intro exI[of _ r] conjI) (rule r[unfolded opts_def] l' m' s z)+
  qed
qed

text \<open>
  Claim C3 as stated fails on the table \<open>two_allocations\<close>: the default listing
  returns the later allocation first (the insertion times of its results are not
  ascending), and the listing with \<open>pre\<close> (the spec's \<open>reverse\<close>) returns the very same
  sequence rather than the opposite order, with \<open>cursor\<close> the multihash of the record
  the backward scan met first.
\<close>

theorem list_not_in_insertion_order:
  "fst (allocations_list None two_allocations ''did:key:alice''
          \<lparr>opt_cursor = None, opt_size = None, opt_pre = None\<rparr>)
     = Ok \<lparr>lr_size = 2, lr_before = Some ''z2'', lr_after = None, lr_cursor = None,
           lr_results =
             [\<lparr>li_blob = \<lparr>blob_digest = [1], blob_size = 20\<rparr>,
               li_insertedAt = ''2024-01-02T00:00:00.000Z''\<rparr>,
              \<lparr>li_blob = \<lparr>blob_digest = [2], blob_size = 10\<rparr>,
               li_insertedAt = ''2024-01-01T00:00:00.000Z''\<rparr>]\<rparr>
   \<and> fst (allocations_list None two_allocations ''did:key:alice''
          \<lparr>opt_cursor = None, opt_size = None, opt_pre = Some True\<rparr>)
     = Ok \<lparr>lr_size = 2, lr_before = None, lr_after = Some ''z3'', lr_cursor = Some ''z3'',
           lr_results =
             [\<lparr>li_blob = \<lparr>blob_digest = [1], blob_size = 20\<rparr>,
               li_insertedAt = ''2024-01-02T00:00:00.000Z''\<rparr>,
              \<lparr>li_blob = \<lparr>blob_digest = [2], blob_size = 10\<rparr>,
               li_insertedAt = ''2024-01-01T00:00:00.000Z''\<rparr>]\<rparr>
   \<and> \<not> sorted [''2024-01-02T00:00:00.000Z'', ''2024-01-01T00:00:00.000Z'']"
  by code_simp

text \<open>
  Paging: the first page of size 1 returns the cursor \<open>z2\<close>; the request for the next
  page marshalls it under the attribute \<open>link\<close>, and the store rejects the start key.
\<close>

lemma list_second_page_throws:
  "fst (allocations_list None two_allocations ''did:key:alice''
          \<lparr>opt_cursor = None, opt_size = Some 1, opt_pre = None\<rparr>)
     = Ok \<lparr>lr_size = 1, lr_before = Some ''z2'', lr_after = Some ''z2'', lr_cursor = Some ''z2'',
           lr_results =
             [\<lparr>li_blob = \<lparr>blob_digest = [1], blob_size = 20\<rparr>,
               li_insertedAt = ''2024-01-02T00:00:00.000Z''\<rparr>]\<rparr>
   \<and> fst (allocations_list None two_allocations ''did:key:alice''
          \<lparr>opt_cursor = Some ''z2'', opt_size = Some 1, opt_pre = None\<rparr>)
     = Throw ''ValidationException''"
  by code_simp

section \<open>Properties of the Agent Message Index\<close>

lemma first_with_root_find:
  "first_with_root rest head =
     (case find (\<lambda>p. truthy (entry_root (toIndexEntry p))) rest of
        Some p \<Rightarrow> toIndexEntry p
      | None \<Rightarrow> head)"
  by (induction rest) (simp_all add: Let_def)

text \<open>
  Claim C5. On a non-empty list of candidate keys, the choice made by \<open>resolve\<close>
  is the entry of the first key, in listing order, whose entry carries a root; when no
  key does, it is the entry of the first key.
\<close>

theorem disambiguate_prefers_root:
  assumes "entries \<noteq> []"
  shows "disambiguate entries =
     (case find (\<lambda>p. truthy (entry_root (toIndexEntry p))) entries of
        Some p \<Rightarrow> Ok (toIndexEntry p)
      | None \<Rightarrow> Ok (toIndexEntry (hd entries)))"
proof (cases entries)
  case Nil
  with assms show ?thesis by simp
next
  case (Cons first rest)
  show ?thesis
  proof (cases "truthy (entry_root (toIndexEntry first))")
    case True
    with Cons show ?thesis by (simp add: disambiguate_def Let_def)
  next
    case False
    with Cons show ?thesis
      by (simp add: disambiguate_def Let_def first_with_root_find split: option.split)
  qed
qed

theorem disambiguate_prefers_root_witness:
  "disambiguate [''bafyinv/bafymsg1.in'', ''bafyinv/bafyinv2@bafymsg2.in'',
                 ''bafyinv/bafyinv3@bafymsg3.in'']
     = Ok \<lparr>entry_root = Some ''/bafyinv2'', entry_at = ''bafymsg2''\<rparr>
   \<and> disambiguate [''bafyinv/bafymsg1.in'', ''bafyinv/bafymsg4.in'']
     = Ok \<lparr>entry_root = None, entry_at = ''bafymsg1''\<rparr>"
proof -
  have ne: "[''bafyinv/bafymsg1.in'', ''bafyinv/bafyinv2@bafymsg2.in'',
             ''bafyinv/bafyinv3@bafymsg3.in''] \<noteq> []"
       "[''bafyinv/bafymsg1.in'', ''bafyinv/bafymsg4.in''] \<noteq> []" by simp_all
  have e: "toIndexEntry ''bafyinv/bafymsg1.in'' = \<lparr>entry_root = None, entry_at = ''bafymsg1''\<rparr>"
          "toIndexEntry ''bafyinv/bafymsg4.in'' = \<lparr>entry_root = None, entry_at = ''bafymsg4''\<rparr>"
          "toIndexEntry ''bafyinv/bafyinv2@bafymsg2.in''
             = \<lparr>entry_root = Some ''/bafyinv2'', entry_at = ''bafymsg2''\<rparr>"
    by code_simp+
  show ?thesis
    using disambiguate_prefers_root[OF ne(1)] disambiguate_prefers_root[OF ne(2)]
    by (simp add: e truthy_def)
qed

lemma indexOf_first: "c \<notin> set a \<Longrightarrow> indexOf (a @ c # b) c = int (length a)"
proof -
  assume n: "c \<notin> set a"
  then have "takeWhile (\<lambda>x. x \<noteq> c) (a @ c # b) = a"
    by (induction a) auto
  then show ?thesis by (simp add: indexOf_def)
qed

lemma indexOf_absent: "c \<notin> set s \<Longrightarrow> indexOf s c = - 1"
  by (simp add: indexOf_def)

lemma slice_mid:
  "slice (a @ b @ c) (int (length a)) (int (length a) + int (length b)) = b"
  by (simp add: slice_def Let_def min_def)

lemma toIndexEntry_current:
  assumes "CHR ''/'' \<notin> set task" and "CHR ''@'' \<notin> set task" and "CHR ''@'' \<notin> set ivc"
    and "CHR ''.'' \<notin> set task" and "CHR ''.'' \<notin> set ivc" and "CHR ''.'' \<notin> set msg"
  shows "toIndexEntry (task @ ''/'' @ ivc @ ''@'' @ msg @ ''.'' @ ext)
           = \<lparr>entry_root = Some (''/'' @ ivc), entry_at = msg\<rparr>"
proof -
  let ?path = "task @ ''/'' @ ivc @ ''@'' @ msg @ ''.'' @ ext"
  have s: "indexOf ?path CHR ''/'' = int (length task)"
    using indexOf_first[OF assms(1), of "ivc @ ''@'' @ msg @ ''.'' @ ext"] by simp
  have o: "indexOf ?path CHR ''@'' = int (length task) + 1 + int (length ivc)"
    using indexOf_first[of "CHR ''@''" "task @ ''/'' @ ivc" "msg @ ''.'' @ ext"] assms(2,3)
    by simp
  have d: "indexOf ?path CHR ''.'' = int (length task) + 1 + int (length ivc) + 1 + int (length msg)"
    using indexOf_first[of "CHR ''.''" "task @ ''/'' @ ivc @ ''@'' @ msg" ext] assms(4,5,6)
    by simp
  have r: "slice ?path (int (length task)) (int (length task) + 1 + int (length ivc)) = ''/'' @ ivc"
    using slice_mid[of task "''/'' @ ivc" "''@'' @ msg @ ''.'' @ ext"] by (simp add: add.assoc)
  have a: "slice ?path (int (length task) + 1 + int (length ivc) + 1)
             (int (length task) + 1 + int (length ivc) + 1 + int (length msg)) = msg"
    using slice_mid[of "task @ ''/'' @ ivc @ ''@''" msg "''.'' @ ext"] by (simp add: algebra_simps)
  show ?thesis
    unfolding toIndexEntry_def Let_def s o d using r a by simp
qed

lemma toIndexEntry_legacy:
  assumes "CHR ''/'' \<notin> set ivc" and "CHR ''@'' \<notin> set ivc" and "CHR ''@'' \<notin> set msg"
    and "CHR ''@'' \<notin> set ext" and "CHR ''.'' \<notin> set ivc" and "CHR ''.'' \<notin> set msg"
  shows "toIndexEntry (ivc @ ''/'' @ msg @ ''.'' @ ext) = \<lparr>entry_root = None, entry_at = msg\<rparr>"
proof -
  let ?path = "ivc @ ''/'' @ msg @ ''.'' @ ext"
  have s: "indexOf ?path CHR ''/'' = int (length ivc)"
    using indexOf_first[OF assms(1), of "msg @ ''.'' @ ext"] by simp
  have o: "indexOf ?path CHR ''@'' = - 1"
    using assms(2,3,4) by (intro indexOf_absent) simp
  have d: "indexOf ?path CHR ''.'' = int (length ivc) + 1 + int (length msg)"
    using indexOf_first[of "CHR ''.''" "ivc @ ''/'' @ msg" ext] assms(5,6) by simp
  have a: "slice ?path (int (length ivc) + 1) (int (length ivc) + 1 + int (length msg)) = msg"
    using slice_mid[of "ivc @ ''/''" msg "''.'' @ ext"] by (simp add: algebra_simps)
  show ?thesis
    unfolding toIndexEntry_def Let_def s o d using a by simp
qed

text \<open>
  What \<open>assert\<close> yields in general: \<open>1 + n + m\<close> put commands for \<open>n\<close>
  invocations and \<open>m\<close> receipts; first the archive, in the message bucket under the
  root's \<open>{id}/{id}\<close>, with the source body unchanged when the source's
  \<open>content-type\<close> is the CAR content type and the CAR encoding of the message
  otherwise; then, for every invocation and every receipt, an empty object in the index
  bucket whose key holds \<open>[object Object]\<close> between the task and the message.
\<close>

lemma index_commands_mset:
  "mset (index_commands bs idx) =
     mset (map (\<lambda>i. PutObjectCommand (index_name bs)
                  (inv_task i @ ''/[object Object]@'' @ inv_message i @ ''.in'') None)
             (invocations_of idx))
       + mset (map (\<lambda>r. PutObjectCommand (index_name bs)
                  (rcp_task r @ ''/[object Object]@'' @ rcp_message r @ ''.out'') None)
               (receipts_of idx))"
proof (induction idx)
  case Nil
  then show ?case by (simp add: invocations_of_def receipts_of_def map_filter_simps)
next
  case (Cons entry rest)
  then show ?case
    by (cases "entry_invocation entry"; cases "entry_receipt entry")
       (simp_all add: invocations_of_def receipts_of_def map_filter_simps template_view_def)
qed

lemma index_commands_length:
  "length (index_commands bs idx) = length (invocations_of idx) + length (receipts_of idx)"
proof -
  have "size (mset (index_commands bs idx)) =
     size (mset (map (\<lambda>i. PutObjectCommand (index_name bs)
                  (inv_task i @ ''/[object Object]@'' @ inv_message i @ ''.in'') None)
             (invocations_of idx))
       + mset (map (\<lambda>r. PutObjectCommand (index_name bs)
                  (rcp_task r @ ''/[object Object]@'' @ rcp_message r @ ''.out'') None)
               (receipts_of idx)))"
    by (simp only: index_commands_mset)
  then show ?thesis by simp
qed

lemma assert_emits:
  "length (assert U bs message) =
     1 + length (invocations_of (msg_index message)) + length (receipts_of (msg_index message))
   \<and> hd (assert U bs message) =
       PutObjectCommand (message_name bs)
         (msg_root_cid message @ ''/'' @ msg_root_cid message)
         (Some (if map_of (msg_headers message) ''content-type'' = Some ''application/vnd.ipld.car''
                then msg_body message
                else response_encode U (msg_data message)))
   \<and> mset (tl (assert U bs message)) =
       mset (map (\<lambda>i. PutObjectCommand (index_name bs)
                    (inv_task i @ ''/[object Object]@'' @ inv_message i @ ''.in'') None)
               (invocations_of (msg_index message)))
         + mset (map (\<lambda>r. PutObjectCommand (index_name bs)
                    (rcp_task r @ ''/[object Object]@'' @ rcp_message r @ ''.out'') None)
                 (receipts_of (msg_index message)))"
  by (simp add: assert_def Let_def index_commands_mset index_commands_length CAR_contentType_def)

text \<open>
  Claim C7 fails on the code. For the message \<open>task_message\<close>, whose index holds the
  invocation \<open>bafyinvocation\<close> and the receipt \<open>bafyreceipt\<close> of the task
  \<open>bafytask\<close>, \<open>assert\<close> yields the archive put and two index puts, but the keys
  of the index puts hold \<open>[object Object]\<close> where the pseudo-links of the current
  scheme hold the identifier of the invocation and of the receipt: neither pseudo-link is
  among the commands.
\<close>

theorem assert_keys_hold_no_identifier:
  "assert U \<lparr>index_name = ''invocation-store'', message_name = ''workflow-store''\<rparr>
       (task_message d) =
     [PutObjectCommand ''workflow-store'' ''bafymessage/bafymessage'' (Some [1, 2, 3]),
      PutObjectCommand ''invocation-store'' ''bafytask/[object Object]@bafymessage.in'' None,
      PutObjectCommand ''invocation-store'' ''bafytask/[object Object]@bafymessage.out'' None]
   \<and> incoming_link \<lparr>index_name = ''invocation-store'', message_name = ''workflow-store''\<rparr>
         \<lparr>inv_task = ''bafytask'', inv_invocation = \<lparr>view_link = ''bafyinvocation''\<rparr>,
          inv_message = ''bafymessage''\<rparr>
       = PutObjectCommand ''invocation-store'' ''bafytask/bafyinvocation@bafymessage.in'' None
   \<and> outgoing_link \<lparr>index_name = ''invocation-store'', message_name = ''workflow-store''\<rparr>
         \<lparr>rcp_task = ''bafytask'', rcp_receipt = \<lparr>view_link = ''bafyreceipt''\<rparr>,
          rcp_message = ''bafymessage''\<rparr>
       = PutObjectCommand ''invocation-store'' ''bafytask/bafyreceipt@bafymessage.out'' None
   \<and> PutObjectCommand ''invocation-store'' ''bafytask/bafyinvocation@bafymessage.in'' None
       \<notin> set (assert U \<lparr>index_name = ''invocation-store'', message_name = ''workflow-store''\<rparr>
                 (task_message d))
   \<and> PutObjectCommand ''invocation-store'' ''bafytask/bafyreceipt@bafymessage.out'' None
       \<notin> set (assert U \<lparr>index_name = ''invocation-store'', message_name = ''workflow-store''\<rparr>
                 (task_message d))"
proof -
  have a: "assert U \<lparr>index_name = ''invocation-store'', message_name = ''workflow-store''\<rparr>
       (task_message d) =
     [PutObjectCommand ''workflow-store'' ''bafymessage/bafymessage'' (Some [1, 2, 3]),
      PutObjectCommand ''invocation-store'' ''bafytask/[object Object]@bafymessage.in'' None,
      PutObjectCommand ''invocation-store'' ''bafytask/[object Object]@bafymessage.out'' None]"
    by (simp add: assert_def task_message_def CAR_contentType_def template_view_def)
  show ?thesis
    unfolding a by (simp add: incoming_link_def outgoing_link_def)
qed

lemma written_objects:
  "objects (channel (snd (write_message U empty_store (task_message d)))) =
     [((''workflow-store'', ''bafymessage/bafymessage''), [1, 2, 3]),
      ((''invocation-store'', ''bafytask/[object Object]@bafymessage.in''), []),
      ((''invocation-store'', ''bafytask/[object Object]@bafymessage.out''), [])]"
  by code_simp

lemma written_resolve:
  "resolve (snd (write_message U empty_store (task_message d))) (Invocation ''bafytask'')
     = Ok \<lparr>entry_root = Some ''/[object Object]'', entry_at = ''bafymessage''\<rparr>"
  by code_simp

lemma written_read:
  "read (snd (write_message U empty_store (task_message d))) ''bafymessage''
     = Error (RecordNotFound ''agent message archive bafymessage not found in store'')"
  by code_simp

lemma written_load:
  "load U (snd (write_message U empty_store (task_message d))) (Invocation ''bafytask'')
     = Error (RecordNotFound ''agent message archive bafymessage not found in store'')"
  by (simp add: load_def written_resolve written_read)

text \<open>
  Claim C4 fails on the code. A message with one invocation and one receipt for
  \<open>bafytask\<close> is written with success into a store whose two buckets are distinct:
  the archive goes to the message bucket, and \<open>read\<close> then looks for it in the index
  bucket, so both \<open>getInvocation\<close> and \<open>getReceipt\<close> return \<open>RecordNotFound\<close>,
  whatever the decoders are.
\<close>

theorem written_message_not_found:
  "fst (write_message U empty_store (task_message d)) = Ok ()
   \<and> getInvocation U (snd (write_message U empty_store (task_message d))) ''bafytask''
       = Error (RecordNotFound ''agent message archive bafymessage not found in store'')
   \<and> getReceipt U (snd (write_message U empty_store (task_message d))) ''bafytask''
       = Error (RecordNotFound ''agent message archive bafymessage not found in store'')"
proof -
  have w: "fst (write_message U empty_store (task_message d)) = Ok ()"
    by code_simp
  have i: "getInvocation U (snd (write_message U empty_store (task_message d))) ''bafytask''
       = Error (RecordNotFound ''agent message archive bafymessage not found in store'')"
    by (simp add: getInvocation_def written_load)
  have r: "getReceipt U (snd (write_message U empty_store (task_message d))) ''bafytask''
       = Error (RecordNotFound ''agent message archive bafymessage not found in store'')"
    by (simp add: getReceipt_def written_load)
  from w i r show ?thesis by simp
qed

lemma receipt_only_objects:
  "objects (channel (snd (write_message U empty_store (receipt_message d)))) =
     [((''workflow-store'', ''bafyresponse/bafyresponse''), [4, 5, 6]),
      ((''invocation-store'', ''bafytask/[object Object]@bafyresponse.out''), [])]"
  by code_simp

lemma receipt_only_resolve_in:
  "resolve (snd (write_message U empty_store (receipt_message d))) (Invocation ''bafytask'')
     = Error (RecordNotFound ''any pseudo symlink from invocation bafytask/*.in was found'')"
  by code_simp

lemma receipt_only_resolve_out:
  "resolve (snd (write_message U empty_store (receipt_message d))) (Receipt ''bafytask'')
     = Ok \<lparr>entry_root = Some ''/[object Object]'', entry_at = ''bafyresponse''\<rparr>"
  by code_simp

text \<open>
  Claim C6 fails on the code. The index holds one key for \<open>bafytask\<close>, ending in
  \<open>.out\<close>, and the lookup with direction \<open>receipt\<close> finds it; \<open>getReceipt\<close>
  nevertheless returns the \<open>RecordNotFound\<close> of a lookup for keys ending in \<open>.in\<close>,
  which it makes first.
\<close>

theorem getReceipt_consults_incoming_keys:
  "map fst (objects (channel (snd (write_message U empty_store (receipt_message d))))) =
     [(''workflow-store'', ''bafyresponse/bafyresponse''),
      (''invocation-store'', ''bafytask/[object Object]@bafyresponse.out'')]
   \<and> resolve (snd (write_message U empty_store (receipt_message d))) (Receipt ''bafytask'')
       = Ok \<lparr>entry_root = Some ''/[object Object]'', entry_at = ''bafyresponse''\<rparr>
   \<and> getReceipt U (snd (write_message U empty_store (receipt_message d))) ''bafytask''
       = Error (RecordNotFound ''any pseudo symlink from invocation bafytask/*.in was found'')"
proof -
  have g: "getReceipt U (snd (write_message U empty_store (receipt_message d))) ''bafytask''
       = Error (RecordNotFound ''any pseudo symlink from invocation bafytask/*.in was found'')"
    by (simp add: getReceipt_def load_def receipt_only_resolve_in)
  show ?thesis
    using g receipt_only_resolve_out[of U d] by (simp add: receipt_only_objects)
qed

text \<open>
  What does hold of a lookup: on a store without outage, the keys \<open>list\<close> returns all
  begin with the prefix and end with the suffix, and when no listed key ends with the
  suffix the result is \<open>RecordNotFound\<close>.
\<close>

lemma listed_keys_prefix: "k \<in> set (listed_keys objs bucket prefix) \<Longrightarrow> startsWith k prefix"
proof -
  assume "k \<in> set (listed_keys objs bucket prefix)"
  then have "k \<in> set (sort (map (\<lambda>ob. snd (fst ob))
        (filter (\<lambda>ob. fst (fst ob) = bucket \<and> startsWith (snd (fst ob)) prefix) objs)))"
    unfolding listed_keys_def by (rule in_set_takeD)
  then show ?thesis by auto
qed

lemma agent_list_matches:
  assumes "outage (channel st) = (\<lambda>c. None)"
  shows "agent_list st prefix suffix =
     (let entries = filter (\<lambda>key. endsWith key suffix)
                      (listed_keys (objects (channel st)) (index_name (buckets st)) prefix)
      in if entries = [] then Error (RecordNotFound
              (''any pseudo symlink from invocation '' @ prefix @ ''*'' @ suffix @ '' was found''))
         else Ok entries)"
  using assms
  by (simp add: agent_list_def s3_send_def Let_def comp_def filter_empty_conv
        split: option.split)

lemma agent_list_only_matching:
  assumes "outage (channel st) = (\<lambda>c. None)" and "agent_list st prefix suffix = Ok entries"
    and "k \<in> set entries"
  shows "startsWith k prefix \<and> endsWith k suffix"
proof -
  from assms(2) have "entries = filter (\<lambda>key. endsWith key suffix)
                      (listed_keys (objects (channel st)) (index_name (buckets st)) prefix)"
    unfolding agent_list_matches[OF assms(1)] by (simp add: Let_def split: if_splits)
  with assms(3) show ?thesis using listed_keys_prefix by auto
qed

section \<open>Properties of the redirect handler\<close>

lemma probe_find:
  "probe locateContent cids probed =
     (case find (\<lambda>c. truthy (locateContent c)) cids of
        Some c \<Rightarrow>
          (\<lparr>statusCode = 302, resp_body = None, headers_Location = locateContent c\<rparr>,
           probed @ takeWhile (\<lambda>c. \<not> truthy (locateContent c)) cids @ [c])
      | None \<Rightarrow>
          (\<lparr>statusCode = 404, resp_body = Some ''No content found for Piece CID'',
            headers_Location = None\<rparr>, probed @ cids))"
proof (induction cids arbitrary: probed)
  case Nil
  then show ?case by simp
next
  case (Cons cid rest)
  show ?case
  proof (cases "truthy (locateContent cid)")
    case True
    then show ?thesis
      by (auto simp: truthy_def redirectTo_def Let_def split: option.splits)
  next
    case False
    then have "probe locateContent (cid # rest) probed = probe locateContent rest (probed @ [cid])"
      by (auto simp: truthy_def Let_def split: option.splits)
    with False Cons.IH[of "probed @ [cid]"] show ?thesis
      by (simp split: option.splits)
  qed
qed

text \<open>
  Claim C9. When the equivalence set of a piece CID is not empty, \<open>resolvePiece\<close>
  probes its members in iteration order: if some member has a location, the response is
  the 302 redirect to the location of the first such member, and the CIDs probed are the
  members before it and that member, none after it; if none has, every member was probed
  and the response is the 404 \<open>No content found for Piece CID\<close>, which differs from
  the response for an empty equivalence set.
\<close>

theorem resolvePiece_first_hit:
  assumes "findEquivalentCids R cid \<noteq> []"
  shows "(case find (\<lambda>c. truthy (locateContent c)) (findEquivalentCids R cid) of
            Some c \<Rightarrow>
              resolvePiece R cid locateContent =
                (\<lparr>statusCode = 302, resp_body = None, headers_Location = locateContent c\<rparr>,
                 takeWhile (\<lambda>c. \<not> truthy (locateContent c)) (findEquivalentCids R cid) @ [c])
          | None \<Rightarrow>
              resolvePiece R cid locateContent =
                (\<lparr>statusCode = 404, resp_body = Some ''No content found for Piece CID'',
                  headers_Location = None\<rparr>, findEquivalentCids R cid)
              \<and> (\<forall>R' cid'. findEquivalentCids R' cid' = [] \<longrightarrow>
                    fst (resolvePiece R' cid' locateContent)
                      = \<lparr>statusCode = 404,
                         resp_body = Some ''No equivalent CID for Piece CID found'',
                         headers_Location = None\<rparr>
                  \<and> fst (resolvePiece R' cid' locateContent)
                      \<noteq> fst (resolvePiece R cid locateContent)))"
  using assms
  by (simp add: resolvePiece_def probe_find[of locateContent _ "[]", simplified]
        split: option.splits)

theorem resolvePiece_first_hit_witness:
  "resolvePiece example_roundabout ''bafkpiece'' (contentLocationResolver example_roundabout None)
     = (\<lparr>statusCode = 302, resp_body = None,
         headers_Location = Some ''https://carpark/bagcar2/bagcar2.car''\<rparr>,
        [''bagcar1'', ''bagcar2''])
   \<and> resolvePiece example_roundabout ''bafkorphan'' (contentLocationResolver example_roundabout None)
     = (\<lparr>statusCode = 404, resp_body = Some ''No content found for Piece CID'',
         headers_Location = None\<rparr>, [''bagcar3'', ''bafkraw3''])"
proof -
  have a: "findEquivalentCids example_roundabout ''bafkpiece'' = [''bagcar1'', ''bagcar2'', ''bafkraw'']"
    and b: "findEquivalentCids example_roundabout ''bafkorphan'' = [''bagcar3'', ''bafkraw3'']"
    by (simp_all add: example_roundabout_def)
  define loc where "loc = contentLocationResolver example_roundabout None"
  have fa: "find (\<lambda>c. truthy (loc c)) [''bagcar1'', ''bagcar2'', ''bafkraw''] = Some ''bagcar2''"
    and ta: "takeWhile (\<lambda>c. \<not> truthy (loc c)) [''bagcar1'', ''bagcar2'', ''bafkraw''] = [''bagcar1'']"
    and la: "loc ''bagcar2'' = Some ''https://carpark/bagcar2/bagcar2.car''"
    and fb: "find (\<lambda>c. truthy (loc c)) [''bagcar3'', ''bafkraw3''] = None"
    by (simp_all add: loc_def example_roundabout_def truthy_def)
  have na: "findEquivalentCids example_roundabout ''bafkpiece'' \<noteq> []" using a by simp
  have nb: "findEquivalentCids example_roundabout ''bafkorphan'' \<noteq> []" using b by simp
  have p1: "resolvePiece example_roundabout ''bafkpiece'' loc
     = (\<lparr>statusCode = 302, resp_body = None,
         headers_Location = Some ''https://carpark/bagcar2/bagcar2.car''\<rparr>,
        [''bagcar1'', ''bagcar2''])"
    using resolvePiece_first_hit[OF na, of loc, unfolded a fa ta option.case] by (simp add: la)
  have p2: "resolvePiece example_roundabout ''bafkorphan'' loc
     = (\<lparr>statusCode = 404, resp_body = Some ''No content found for Piece CID'',
         headers_Location = None\<rparr>, [''bagcar3'', ''bafkraw3''])"
    using resolvePiece_first_hit[OF nb, of loc, unfolded b fb option.case, THEN conjunct1] .
  from p1 p2 show ?thesis unfolding loc_def by (rule conjI)
qed

lemma resolveContent_status:
  "fst (resolveContent cid locateContent) =
     (if truthy (locateContent cid)
      then \<lparr>statusCode = 302, resp_body = None, headers_Location = locateContent cid\<rparr>
      else \<lparr>statusCode = 404, resp_body = Some ''Content Not found'', headers_Location = None\<rparr>)"
  by (simp add: resolveContent_def truthy_def redirectTo_def Let_def split: option.splits)

lemma probe_status:
  "statusCode (fst (probe locateContent cids probed)) =
     (if list_ex (\<lambda>c. truthy (locateContent c)) cids then 302 else 404)"
  by (induction cids arbitrary: probed)
     (auto simp: truthy_def redirectTo_def Let_def split: option.splits)

lemma resolvePiece_status:
  "statusCode (fst (resolvePiece R cid locateContent)) =
     (if list_ex (\<lambda>c. truthy (locateContent c)) (findEquivalentCids R cid) then 302 else 404)"
  by (cases "findEquivalentCids R cid = []") (simp_all add: resolvePiece_def probe_status)

text \<open>
  The statuses of \<open>GET /{cid}\<close> that the code does produce: 400 when the query
  parameters or the CID do not parse; for a v2 piece CID 302 when a member of its
  equivalence set has a location and 404 otherwise; 415 for a v1 piece CID.
\<close>

lemma redirectGet_malformed:
  "parseQueryStringParameters R (queryStringParameters request) = Inl m
     \<Longrightarrow> statusCode (fst (redirectGet R request)) = 400"
  "parseQueryStringParameters R (queryStringParameters request) = Inr e
     \<Longrightarrow> CID_parse R (case pathParameters_cid request of None \<Rightarrow> [] | Some c \<Rightarrow> c) = Inl m
     \<Longrightarrow> statusCode (fst (redirectGet R request)) = 400"
  by (simp_all add: redirectGet_def)

lemma redirectGet_piece_v2:
  assumes "parseQueryStringParameters R (queryStringParameters request) = Inr e"
    and "CID_parse R (case pathParameters_cid request of None \<Rightarrow> [] | Some c \<Rightarrow> c) = Inr cid"
    and "asPieceCidV2 R cid = Some p"
  shows "statusCode (fst (redirectGet R request)) =
     (if list_ex (\<lambda>c. truthy (contentLocationResolver R e c)) (findEquivalentCids R cid)
      then 302 else 404)"
proof -
  have "fst (redirectGet R request) = fst (resolvePiece R cid (contentLocationResolver R e))"
    using assms by (simp add: redirectGet_def Let_def split: prod.splits)
  then show ?thesis by (simp add: resolvePiece_status)
qed

lemma redirectGet_piece_v1:
  assumes "parseQueryStringParameters R (queryStringParameters request) = Inr e"
    and "CID_parse R (case pathParameters_cid request of None \<Rightarrow> [] | Some c \<Rightarrow> c) = Inr cid"
    and "asPieceCidV2 R cid = None" and "asPieceCidV1 R cid = Some p"
  shows "statusCode (fst (redirectGet R request)) = 415"
  using assms by (simp add: redirectGet_def Let_def)

text \<open>
  Claim C8 fails on the code for an identifier of an unrecognized type. Whenever the
  request parses and the CID is neither a v2 nor a v1 piece CID, the response is that of
  \<open>resolveContent\<close>: the 302 redirect when \<open>locateContent\<close> gives a location, and
  otherwise 404 \<open>Content Not found\<close>; it is never the 415 \<open>Unsupported CID type\<close>
  of the handler's last line.
\<close>

theorem redirectGet_other_cid_never_415:
  assumes "parseQueryStringParameters R (queryStringParameters request) = Inr e"
    and "CID_parse R (case pathParameters_cid request of None \<Rightarrow> [] | Some c \<Rightarrow> c) = Inr cid"
    and "asPieceCidV2 R cid = None" and "asPieceCidV1 R cid = None"
  shows "fst (redirectGet R request) =
     (if truthy (contentLocationResolver R e cid)
      then \<lparr>statusCode = 302, resp_body = None,
            headers_Location = contentLocationResolver R e cid\<rparr>
      else \<lparr>statusCode = 404, resp_body = Some ''Content Not found'', headers_Location = None\<rparr>)
     \<and> statusCode (fst (redirectGet R request)) \<noteq> 415"
proof -
  have "fst (redirectGet R request) = fst (resolveContent cid (contentLocationResolver R e))"
    using assms by (simp add: redirectGet_def Let_def split: prod.splits)
  then show ?thesis by (simp add: resolveContent_status)
qed

theorem redirectGet_other_cid_never_415_witness:
  "fst (redirectGet example_roundabout
          \<lparr>queryStringParameters = (), pathParameters_cid = Some ''bafybeidagpb''\<rparr>)
     = \<lparr>statusCode = 404, resp_body = Some ''Content Not found'', headers_Location = None\<rparr>"
proof -
  define request :: "unit request" where
    "request = \<lparr>queryStringParameters = (), pathParameters_cid = Some ''bafybeidagpb''\<rparr>"
  have q: "parseQueryStringParameters example_roundabout (queryStringParameters request) = Inr None"
    by (simp add: example_roundabout_def)
  have c: "CID_parse example_roundabout
             (case pathParameters_cid request of None \<Rightarrow> [] | Some c \<Rightarrow> c) = Inr ''bafybeidagpb''"
    by (simp add: example_roundabout_def request_def)
  have v2: "asPieceCidV2 example_roundabout ''bafybeidagpb'' = None"
    and v1: "asPieceCidV1 example_roundabout ''bafybeidagpb'' = None"
    and l: "contentLocationResolver example_roundabout None ''bafybeidagpb'' = None"
    by (simp_all add: example_roundabout_def)
  from redirectGet_other_cid_never_415[OF q c v2 v1]
  show ?thesis by (simp add: l truthy_def request_def)
qed

section \<open>Properties of the space snapshot records\<close>

text \<open>
  Claim C10. For a snapshot that satisfies the schema, with valid dates, \<open>encode\<close>
  succeeds and \<open>decode\<close> of its result returns the snapshot itself, the size as the
  same integer and each date as the same time value, given that the built-ins invert
  each other on the snapshot's size and dates: \<open>BigInt\<close> reads back what
  \<open>toString\<close> printed and \<open>new Date\<close> what \<open>toISOString\<close> printed.
\<close>

theorem decode_encode:
  assumes "schema x"
    and "BigInt J (bigint_toString J (snap_size x)) = Some (snap_size x)"
    and "\<forall>t. snap_recordedAt x = Some t \<longrightarrow> Date_parse J (toISOString J t) = Some t"
    and "\<forall>t. snap_insertedAt x = Some t \<longrightarrow> Date_parse J (toISOString J t) = Some t"
  shows "\<exists>r. encode J x = Ok r \<and> decode J r = Ok x"
proof -
  from assms(1) obtain ra ia where
    d: "snap_recordedAt x = Some ra" "snap_insertedAt x = Some ia"
    and p: "did_from (Some ''web'') (snap_provider x) = Some (snap_provider x)"
    and s: "did_from None (snap_space x) = Some (snap_space x)"
    by (auto simp: schema_def did_from_def Let_def split: if_splits)
  let ?r = "\<lparr>rec_pk = snap_space x @ ''#'' @ snap_provider x,
             rec_space = snap_space x,
             rec_provider = snap_provider x,
             rec_size = bigint_toString J (snap_size x),
             rec_recordedAt = toISOString J ra,
             rec_insertedAt = toISOString J ia\<rparr>"
  have e: "encode J x = Ok ?r" using d by (simp add: encode_def)
  have "decode J ?r = Ok \<lparr>snap_provider = snap_provider x, snap_space = snap_space x,
                          snap_size = snap_size x, snap_recordedAt = Some ra,
                          snap_insertedAt = Some ia\<rparr>"
    using p s assms(2,3,4) d by (simp add: decode_def)
  also have "\<dots> = Ok x" using d by simp
  finally show ?thesis using e by blast
qed

theorem decode_encode_witness:
  "\<exists>r. encode example_js
           \<lparr>snap_provider = ''did:web:web3.storage'', snap_space = ''did:key:z6Mkspace'',
            snap_size = 1024, snap_recordedAt = Some 0, snap_insertedAt = Some 86400000\<rparr> = Ok r
      \<and> decode example_js r =
          Ok \<lparr>snap_provider = ''did:web:web3.storage'', snap_space = ''did:key:z6Mkspace'',
              snap_size = 1024, snap_recordedAt = Some 0, snap_insertedAt = Some 86400000\<rparr>"
proof -
  define x where "x = \<lparr>snap_provider = ''did:web:web3.storage'', snap_space = ''did:key:z6Mkspace'',
            snap_size = 1024, snap_recordedAt = Some 0, snap_insertedAt = Some 86400000\<rparr>"
  have a: "schema x" by (simp add: x_def schema_def did_from_def startsWith_def)
  have b: "BigInt example_js (bigint_toString example_js (snap_size x)) = Some (snap_size x)"
    by (simp add: x_def example_js_def)
  have c: "\<forall>t. snap_recordedAt x = Some t \<longrightarrow>
             Date_parse example_js (toISOString example_js t) = Some t"
    by (simp add: x_def example_js_def)
  have d: "\<forall>t. snap_insertedAt x = Some t \<longrightarrow>
             Date_parse example_js (toISOString example_js t) = Some t"
    by (simp add: x_def example_js_def)
  from decode_encode[OF a b c d] show ?thesis unfolding x_def .
qed

text \<open>
  With one bucket for both the index and the messages \<open>read\<close> finds the archive,
  and the root that \<open>load\<close> hands to \<open>parseLink\<close> is what the key holds from
  its first slash, included, to the \<open>@\<close>.
\<close>

lemma shared_resolve:
  "resolve (snd (write_message U shared_store (task_message d))) (Invocation ''bafytask'')
     = Ok \<lparr>entry_root = Some ''/[object Object]'', entry_at = ''bafymessage''\<rparr>"
  by code_simp

lemma shared_read:
  "read (snd (write_message U shared_store (task_message d))) ''bafymessage'' = Ok [1, 2, 3]"
  by code_simp

lemma shared_load:
  "load U (snd (write_message U shared_store (task_message d))) (Invocation ''bafytask'') =
     (case codec_decode U [1, 2, 3] of
        None \<Rightarrow> Throw ''Error''
      | Some archive \<Rightarrow>
          (case parseLink U ''/[object Object]'' of
             None \<Rightarrow> Throw ''Error''
           | Some l \<Rightarrow> Ok (archive, Some l)))"
  by (simp add: load_def shared_resolve shared_read split: option.split)

end
